theory Spec2Isabelle
  imports Complex_Main "HOL-Library.AList"
begin

section \<open>Data model\<close>

text \<open>
  Python strings are sequences of code points; the model writes them as \<^typ>\<open>string\<close>,
  one \<^typ>\<open>char\<close> per code point below 256 (so the letter o-slash of
  \<^verbatim>\<open>stedfestingsnoyaktighet\<close> is the single character 0xF8). A Python float is
  written as the \<^typ>\<open>real\<close> number it denotes; comparison and \<^verbatim>\<open>round(x)\<close> are
  exact on that number, while float addition and \<^verbatim>\<open>round(x, ndigits)\<close>, whose results
  are again floats, are parameters of the model. A UUID is written as its canonical string.
\<close>

type_synonym uuid = string

text \<open>Exceptions of the source that the model returns as values.\<close>

datatype error =
    DokAnalysisException string
  | AttributeError string
  | TypeError string
  | IndexError

text \<open>
  Modelled from the spec: \<^verbatim>\<open>models/result_status.py\<close> and
  \<^verbatim>\<open>models/config/quality_indicator_type.py\<close> are not among the source files. The
  result status is the closed enumeration of section 3 of the specification, the indicator
  kind is "COVERAGE, other"; the source names \<^verbatim>\<open>NO_HIT_GREEN\<close>, \<^verbatim>\<open>NO_HIT_YELLOW\<close>,
  \<^verbatim>\<open>TIMEOUT\<close>, \<^verbatim>\<open>ERROR\<close> and \<^verbatim>\<open>COVERAGE\<close>.
\<close>

datatype ResultStatus =
    NO_HIT_GREEN | NO_HIT_YELLOW | HIT_GREEN | HIT_YELLOW | HIT_RED | TIMEOUT | ERROR

datatype QualityIndicatorType = COVERAGE | OTHER_KIND

text \<open>
  Modelled from the spec: \<^verbatim>\<open>models/config/quality_indicator.py\<close> is not among the
  source files. \<^verbatim>\<open>QualityIndicator\<close> (a configuration entity) holds the fields that the
  source reads. The field \<^verbatim>\<open>type\<close> is written \<open>indicator_type\<close>; \<^verbatim>\<open>wfs\<close> is the
  optional reference to the coverage data source.
\<close>

record QualityIndicator =
  indicator_type :: QualityIndicatorType
  qi_quality_dimension_id :: string
  qi_quality_dimension_name :: string
  quality_warning_text :: string
  wfs :: "string option"

text \<open>
  Modelled from the spec: \<^verbatim>\<open>models/quality_measurement.py\<close> is not among the source
  files. The fields are those of the constructor call
  \<^verbatim>\<open>QualityMeasurement(quality_dimension_id, quality_dimension_name, value, comment)\<close>.
\<close>

record QualityMeasurement =
  quality_dimension_id :: string
  quality_dimension_name :: string
  qm_value :: string
  qm_comment :: "string option"

text \<open>
  The collaborators of the coverage evaluator, which are not among the source files, are
  parameters of the model:
  \<^item> \<open>get_values_from_wfs\<close>: the coverage-value source, from a WFS reference, the geometry
    and the EPSG code to the list of values and the covered percentage;
  \<^item> \<open>get_codelist\<close>: the codelist lookup, entries as pairs (value, label);
  \<^item> \<open>get_threshold_values\<close>: the indicator's configured threshold values;
  \<^item> \<open>float_str\<close>: Python's \<^verbatim>\<open>str\<close> on a float.
\<close>

record 'g coverage_env =
  get_values_from_wfs :: "string \<Rightarrow> 'g option \<Rightarrow> int \<Rightarrow> string list \<times> real"
  get_codelist :: "string \<Rightarrow> (string \<times> string option) list option"
  get_threshold_values :: "QualityIndicator \<Rightarrow> string list"
  float_str :: "real \<Rightarrow> string"

section \<open>Coverage quality (services/quality/coverage\_quality.py)\<close>

text \<open>
  \<^verbatim>\<open>_get_values_from_web_service\<close>: without a WFS reference the values are the empty
  list and the percentage 0.
\<close>

definition get_values_from_web_service ::
  "('g, 'x) coverage_env_scheme \<Rightarrow> QualityIndicator \<Rightarrow> 'g option \<Rightarrow> int \<Rightarrow> string list \<times> real" where
  "get_values_from_web_service env quality_indicator geometry epsg =
     (case wfs quality_indicator of
        Some w \<Rightarrow> get_values_from_wfs env w geometry epsg
      | None \<Rightarrow> ([], 0))"

text \<open>
  \<^verbatim>\<open>any(x for x in xs)\<close> on strings: Python's \<^verbatim>\<open>any\<close> tests the truth value of
  every element the generator yields, and the empty string is false.
\<close>

definition py_any_str :: "string list \<Rightarrow> bool" where
  "py_any_str xs = (\<exists>x \<in> set xs. x \<noteq> [])"

text \<open>
  \<^verbatim>\<open>should_warn = any(value for value in values if any(
      t_value for t_value in threshold_values if t_value == value))\<close>
\<close>

definition should_warn :: "string list \<Rightarrow> string list \<Rightarrow> bool" where
  "should_warn threshold_values values =
     py_any_str (filter (\<lambda>value.
        py_any_str (filter (\<lambda>t_value. t_value = value) threshold_values)) values)"

text \<open>\<^verbatim>\<open>str.replace('.', ',')\<close> and \<^verbatim>\<open>str.lower()\<close> on code points below 256.\<close>

definition replace_dot_comma :: "string \<Rightarrow> string" where
  "replace_dot_comma s = map (\<lambda>c. if c = CHR ''.'' then CHR '','' else c) s"

definition lower_char :: "char \<Rightarrow> char" where
  "lower_char c =
     (let n = (of_char c :: nat) in
      if (65 \<le> n \<and> n \<le> 90) \<or> (192 \<le> n \<and> n \<le> 214) \<or> (216 \<le> n \<and> n \<le> 222)
      then char_of (n + 32) else c)"

definition lower :: "string \<Rightarrow> string" where
  "lower s = map lower_char s"

text \<open>\<^verbatim>\<open>_get_warning_text\<close>: \<open>None\<close> when no warning is produced.\<close>

definition get_warning_text ::
  "('g, 'x) coverage_env_scheme \<Rightarrow> QualityIndicator \<Rightarrow> string list \<Rightarrow> real \<Rightarrow> string option" where
  "get_warning_text env quality_indicator values hit_area_percent =
     (let threshold_values = get_threshold_values env quality_indicator in
      if should_warn threshold_values values then
        (let warning_text = quality_warning_text quality_indicator in
         if 0 < hit_area_percent \<and> hit_area_percent < 100
         then Some (replace_dot_comma (float_str env hit_area_percent) @ '' % av '' @ lower warning_text)
         else Some warning_text)
      else None)"

text \<open>\<^verbatim>\<open>_has_coverage\<close>.\<close>

definition has_coverage_values :: "string list \<Rightarrow> bool" where
  "has_coverage_values values =
     (if ''ikkeKartlagt'' \<in> set values
      then (\<exists>v \<in> set values. v \<noteq> ''ikkeKartlagt'')
      else True)"

text \<open>\<^verbatim>\<open>_get_label_from_codelist\<close>: the label of the first entry with the value.\<close>

fun first_entry :: "string \<Rightarrow> (string \<times> string option) list \<Rightarrow> (string \<times> string option) option" where
  "first_entry v [] = None"
| "first_entry v (e # es) = (if fst e = v then Some e else first_entry v es)"

definition get_label_from_codelist ::
  "string \<Rightarrow> (string \<times> string option) list option \<Rightarrow> string option" where
  "get_label_from_codelist v codelist =
     (case codelist of
        None \<Rightarrow> None
      | Some [] \<Rightarrow> None
      | Some entries \<Rightarrow> (case first_entry v entries of None \<Rightarrow> None | Some e \<Rightarrow> snd e))"

text \<open>
  \<^verbatim>\<open>_get_coverage_quality_data\<close>: the measurement dictionary (keys \<^verbatim>\<open>id\<close>,
  \<^verbatim>\<open>name\<close>, \<^verbatim>\<open>values\<close>, \<^verbatim>\<open>warning_text\<close>) as a record, \<open>None\<close> when the source
  returned no value.
\<close>

record quality_data =
  qd_id :: string
  qd_name :: string
  qd_values :: "(string \<times> string option) list"
  qd_warning_text :: "string option"

definition get_coverage_quality_data ::
  "('g, 'x) coverage_env_scheme \<Rightarrow> QualityIndicator \<Rightarrow> 'g option \<Rightarrow> int \<Rightarrow> quality_data option \<times> bool" where
  "get_coverage_quality_data env quality_indicator geometry epsg =
     (case get_values_from_web_service env quality_indicator geometry epsg of
        (values, hit_area_percent) \<Rightarrow>
          if length values = 0 then (None, False)
          else
            (let codelist = get_codelist env ''fullstendighet_dekning'';
                 meas_values = map (\<lambda>v.
                    (if v \<in> set [''ikkeKartlagt'', ''ikkeRelevant''] then ''Nei'' else ''Ja'',
                     get_label_from_codelist v codelist)) values
             in (Some \<lparr> qd_id = qi_quality_dimension_id quality_indicator,
                        qd_name = qi_quality_dimension_name quality_indicator,
                        qd_values = meas_values,
                        qd_warning_text = get_warning_text env quality_indicator values hit_area_percent \<rparr>,
                 has_coverage_values values)))"

text \<open>\<^verbatim>\<open>get_coverage_quality\<close>: (measurements, warning, has\_coverage).\<close>

definition get_coverage_quality ::
  "('g, 'x) coverage_env_scheme \<Rightarrow> QualityIndicator \<Rightarrow> 'g option \<Rightarrow> int
     \<Rightarrow> QualityMeasurement list \<times> string option \<times> bool" where
  "get_coverage_quality env quality_indicator geometry epsg =
     (case get_coverage_quality_data env quality_indicator geometry epsg of
        (None, has_coverage) \<Rightarrow> ([], None, False)
      | (Some qd, has_coverage) \<Rightarrow>
          (map (\<lambda>v. \<lparr> quality_dimension_id = qd_id qd, quality_dimension_name = qd_name qd,
                       qm_value = fst v, qm_comment = snd v \<rparr>) (qd_values qd),
           qd_warning_text qd,
           has_coverage))"

section \<open>Configuration (services/config.py)\<close>

text \<open>
  Modelled from the spec: \<^verbatim>\<open>DatasetConfig\<close>, its layers and \<^verbatim>\<open>QualityConfig\<close> are
  pydantic models that are not among the source files; the records hold the fields that the
  source reads (\<^verbatim>\<open>title\<close>, \<^verbatim>\<open>themes\<close> and \<^verbatim>\<open>wms\<close> of the dataset are written
  \<open>config_title\<close>, \<open>config_themes\<close> and \<open>config_wms\<close>).
\<close>

record Layer =
  geolett_id :: "uuid option"
  layer_ogc_api :: string
  layer_wms :: string
  layer_result_status :: ResultStatus

record DatasetConfig =
  config_title :: string
  config_themes :: "string list"
  layers :: "Layer list"
  ogc_api :: string
  geom_field :: string
  config_wms :: string
  properties :: "string list"

record QualityConfig =
  qc_dataset_id :: "uuid option"
  indicators :: "QualityIndicator list"

text \<open>
  \<^verbatim>\<open>get_quality_indicator_configs\<close>: the indicators of every quality configuration that
  names no dataset or names this one, in configuration order. The loaded configuration
  (\<^verbatim>\<open>_load_config\<close>, which reads files) is the first argument.
\<close>

definition get_quality_indicator_configs :: "QualityConfig list \<Rightarrow> uuid \<Rightarrow> QualityIndicator list" where
  "get_quality_indicator_configs quality_configs dataset_id =
     foldl (\<lambda>indicators_acc config.
              if qc_dataset_id config = None \<or> qc_dataset_id config = Some dataset_id
              then indicators_acc @ indicators config else indicators_acc)
       [] quality_configs"

section \<open>The analysis (models/analysis.py)\<close>

text \<open>
  A guidance entry (\<^verbatim>\<open>geolett\<close>): the keys the source reads (\<^verbatim>\<open>id\<close> is written
  \<open>geolett_entry_id\<close>); a link is the pair of its \<^verbatim>\<open>href\<close> and \<^verbatim>\<open>tittel\<close>.
\<close>

record Geolett =
  geolett_entry_id :: string
  tittel :: string
  forklarendeTekst :: string
  dialogtekst :: string
  lenker :: "(string \<times> string) list"
  muligeTiltak :: string

text \<open>
  A feature of a query response: its \<^verbatim>\<open>geometry\<close> and \<^verbatim>\<open>properties\<close> members, kept
  as JSON text. A response is the list of its \<^verbatim>\<open>features\<close>.
\<close>

record Feature =
  feature_geometry :: string
  feature_properties :: string

type_synonym props = "(string \<times> string option) list"

text \<open>
  The instance attributes of \<^verbatim>\<open>Analysis\<close>. The geometry type \<open>'g\<close> stands for
  \<^verbatim>\<open>ogr.Geometry\<close>; an attribute that starts as \<^verbatim>\<open>None\<close> is an option.
\<close>

record 'g Analysis =
  dataset_id :: uuid
  config :: DatasetConfig
  geometry :: 'g
  run_on_input_geometry :: "'g option"
  epsg :: int
  orig_epsg :: int
  geometries :: "'g option list"
  geolett :: "Geolett option"
  title :: "string option"
  description :: "string option"
  guidance_text :: "string option"
  guidance_uri :: "(string \<times> string) list"
  possible_actions :: "string list"
  quality_measurement :: "QualityMeasurement list"
  quality_warning :: "string list"
  buffer :: int
  input_geometry_area :: "real option"
  run_on_input_geometry_json :: "string option"
  hit_area :: "real option"
  distance_to_object :: int
  raster_result :: "string option"
  cartography :: "string option"
  data :: "props list"
  themes :: "string list option"
  run_on_dataset :: "string option"
  run_algorithm :: "string list"
  result_status :: ResultStatus
  coverage_statuses :: "string list"
  has_coverage :: bool

text \<open>\<^verbatim>\<open>Analysis.__init__\<close>; \<^verbatim>\<open>buffer or 0\<close> turns a missing buffer into 0.\<close>

definition Analysis_init ::
  "uuid \<Rightarrow> DatasetConfig \<Rightarrow> 'g \<Rightarrow> int \<Rightarrow> int \<Rightarrow> int option \<Rightarrow> 'g Analysis" where
  "Analysis_init dataset_id' config' geometry' epsg' orig_epsg' buffer' =
     \<lparr> dataset_id = dataset_id',
       config = config',
       geometry = geometry',
       run_on_input_geometry = None,
       epsg = epsg',
       orig_epsg = orig_epsg',
       geometries = [],
       geolett = None,
       title = None,
       description = None,
       guidance_text = None,
       guidance_uri = [],
       possible_actions = [],
       quality_measurement = [],
       quality_warning = [],
       buffer = (case buffer' of None \<Rightarrow> 0 | Some b \<Rightarrow> b),
       input_geometry_area = None,
       run_on_input_geometry_json = None,
       hit_area = None,
       distance_to_object = 0,
       raster_result = None,
       cartography = None,
       data = [],
       themes = None,
       run_on_dataset = None,
       run_algorithm = [],
       result_status = NO_HIT_GREEN,
       coverage_statuses = [],
       has_coverage = True \<rparr>"

text \<open>
  The collaborators of the analysis that are not among the source files (the geometry
  operations of \<^verbatim>\<open>ogr\<close> and \<^verbatim>\<open>utils/helpers/geometry.py\<close>, the catalogue, the dataset
  and object quality services, the OGC API client, \<^verbatim>\<open>pydash.get\<close> and the raster
  services) extend the parameters of the coverage evaluator. An awaited call is modelled by
  its result. Further parameters:
  \<^item> \<open>quality_configs\<close>: the loaded configuration;
  \<^item> \<open>float_add\<close>: the sum of two floats as Python computes it (a float again);
  \<^item> \<open>round_ndigits\<close>: Python's \<^verbatim>\<open>round(x, ndigits)\<close> on a float (a float again);
  \<^item> \<open>fetch_geolett_data\<close>: what \<^verbatim>\<open>_fetch_geolett_data\<close> of
    \<^verbatim>\<open>services/geolett.py\<close> returns, the list of the register's entries, or \<open>None\<close>
    when the request fails or is not answered with status 200;
  \<^item> \<open>fetch_local_geolett_data\<close>: the entries that \<^verbatim>\<open>_fetch_local_geolett_data\<close>
    reads from the resource file;
  \<^item> \<open>id_in\<close>: Python's \<^verbatim>\<open>id in _LOCAL_GEOLETT_IDS\<close>, whose result depends on
    whether the configuration model (not among the source files) holds the id as a
    \<^verbatim>\<open>UUID\<close> object or as a string.
\<close>

record 'g env = "'g coverage_env" +
  quality_configs :: "QualityConfig list"
  create_buffered_geometry :: "'g \<Rightarrow> int \<Rightarrow> int \<Rightarrow> 'g"
  Clone :: "'g \<Rightarrow> 'g"
  GetArea :: "'g \<Rightarrow> real"
  Intersection :: "'g \<Rightarrow> 'g \<Rightarrow> 'g option"
  GetGeometryType :: "'g \<Rightarrow> int"
  Distance :: "'g \<Rightarrow> 'g \<Rightarrow> real"
  create_run_on_input_geometry_json :: "'g option \<Rightarrow> int \<Rightarrow> int \<Rightarrow> string"
  get_kartkatalog_metadata :: "uuid \<Rightarrow> string option"
  get_dataset_quality ::
    "uuid \<Rightarrow> QualityIndicator list \<Rightarrow> string \<Rightarrow> string list option \<Rightarrow> QualityMeasurement list \<times> string list"
  get_object_quality :: "QualityIndicator list \<Rightarrow> props list \<Rightarrow> QualityMeasurement list \<times> string list"
  fetch_geolett_data :: "Geolett list option"
  fetch_local_geolett_data :: "Geolett list"
  id_in :: "uuid \<Rightarrow> string list \<Rightarrow> bool"
  query_ogc_api :: "string \<Rightarrow> string \<Rightarrow> string \<Rightarrow> 'g option \<Rightarrow> int \<Rightarrow> int \<times> Feature list option"
  geometry_from_json :: "string \<Rightarrow> 'g option"
  transform_geometry :: "'g option \<Rightarrow> int \<Rightarrow> int \<Rightarrow> 'g option"
  pydash_get :: "string \<Rightarrow> string \<Rightarrow> string option"
  get_raster_result :: "string \<Rightarrow> string \<Rightarrow> string option"
  get_cartography_url :: "string \<Rightarrow> string \<Rightarrow> string option"
  float_add :: "real \<Rightarrow> real \<Rightarrow> real"
  round_ndigits :: "real \<Rightarrow> nat \<Rightarrow> real"

text \<open>
  Python's \<^verbatim>\<open>round(x)\<close>: the nearest integer, a tie to the even one.
\<close>

definition py_round :: "real \<Rightarrow> int" where
  "py_round x =
     (let f = \<lfloor>x\<rfloor>; d = x - of_int f in
      if d < 1 / 2 then f
      else if 1 / 2 < d then f + 1
      else if even f then f else f + 1)"

text \<open>
  \<^verbatim>\<open>_LOCAL_GEOLETT_IDS\<close> and \<^verbatim>\<open>get_geolett_data\<close> of \<^verbatim>\<open>services/geolett.py\<close>:
  without an id there is no entry; otherwise the entries are the local ones or the fetched
  ones, and \<^verbatim>\<open>filter\<close> over a fetch result \<open>None\<close> raises \<^verbatim>\<open>TypeError\<close>; the result
  is the first entry whose \<^verbatim>\<open>id\<close> is \<^verbatim>\<open>str(id)\<close>.
\<close>

definition LOCAL_GEOLETT_IDS :: "string list" where
  "LOCAL_GEOLETT_IDS = [''0c5dc043-e5b3-4349-8587-9b464d013aaa'']"

definition get_geolett_data :: "'g env \<Rightarrow> uuid option \<Rightarrow> error + Geolett option" where
  "get_geolett_data env id' =
     (case id' of
        None \<Rightarrow> Inr None
      | Some i \<Rightarrow>
          (case (if id_in env i LOCAL_GEOLETT_IDS then Some (fetch_local_geolett_data env)
                 else fetch_geolett_data env) of
             None \<Rightarrow> Inl (TypeError ''NoneType object is not iterable'')
           | Some entries \<Rightarrow>
               (case filter (\<lambda>item. geolett_entry_id item = i) entries of
                  [] \<Rightarrow> Inr None
                | first_result # _ \<Rightarrow> Inr (Some first_result))))"

text \<open>\<^verbatim>\<open>ogr.wkbPolygon\<close> and \<^verbatim>\<open>ogr.wkbMultiPolygon\<close>.\<close>

definition wkbPolygon :: int where
  "wkbPolygon = 3"

definition wkbMultiPolygon :: int where
  "wkbMultiPolygon = 6"

text \<open>\<^verbatim>\<open>add_run_algorithm\<close>.\<close>

definition add_run_algorithm :: "string \<Rightarrow> 'g Analysis \<Rightarrow> 'g Analysis" where
  "add_run_algorithm algorithm self = self\<lparr> run_algorithm := run_algorithm self @ [algorithm] \<rparr>"

text \<open>\<^verbatim>\<open>set_default_data\<close>.\<close>

definition set_default_data :: "'g env \<Rightarrow> 'g Analysis \<Rightarrow> 'g Analysis" where
  "set_default_data env self =
     self\<lparr> title := Some (case geolett self of Some g \<Rightarrow> tittel g | None \<Rightarrow> config_title (config self)),
           themes := Some (config_themes (config self)),
           run_on_dataset := get_kartkatalog_metadata env (dataset_id self) \<rparr>"

text \<open>
  \<^verbatim>\<open>__run_coverage_analysis\<close>. The indicator handed to \<^verbatim>\<open>get_coverage_quality\<close> is
  \<^verbatim>\<open>quality_indicators[0]\<close>, as the source has it.
\<close>

definition run_coverage_analysis :: "'g env \<Rightarrow> 'g Analysis \<Rightarrow> error + 'g Analysis" where
  "run_coverage_analysis env self =
     (let quality_indicators = get_quality_indicator_configs (quality_configs env) (dataset_id self) in
      if length quality_indicators = 0 then Inr self
      else
        (let coverage_indicators = filter (\<lambda>indicator. indicator_type indicator = COVERAGE) quality_indicators in
         if length coverage_indicators = 0 then Inr self
         else if length coverage_indicators > 1
         then Inl (DokAnalysisException ''A dataset can only have one coverage quality indicator'')
         else
           (let self1 = add_run_algorithm ''check coverage'' self in
            case get_coverage_quality env (quality_indicators ! 0) (run_on_input_geometry self1) (epsg self1) of
              (measurements, warning, has_coverage') \<Rightarrow>
                Inr (self1\<lparr> quality_measurement := quality_measurement self1 @ measurements,
                            has_coverage := has_coverage',
                            quality_warning := (case warning of
                                None \<Rightarrow> quality_warning self1
                              | Some w \<Rightarrow> quality_warning self1 @ [w]) \<rparr>))))"

text \<open>\<^verbatim>\<open>__set_input_geometry\<close>.\<close>

definition set_input_geometry :: "'g env \<Rightarrow> 'g Analysis \<Rightarrow> 'g Analysis" where
  "set_input_geometry env self =
     (let self1 = add_run_algorithm ''set input_geometry'' self in
      if buffer self1 > 0 then
        (let buffered_geom = create_buffered_geometry env (geometry self1) (buffer self1) (epsg self1);
             self2 = add_run_algorithm ''add buffer'' self1
         in self2\<lparr> run_on_input_geometry := Some buffered_geom \<rparr>)
      else self1\<lparr> run_on_input_geometry := Some (Clone env (geometry self1)) \<rparr>)"

text \<open>
  \<^verbatim>\<open>__set_geometry_areas\<close>. The loop over the result geometries, with the running
  \<^verbatim>\<open>hit_area\<close> as accumulator (a float sum, starting at 0): a missing geometry and a
  missing intersection are skipped, and only a polygon or multi-polygon intersection adds
  its area.
\<close>

fun accumulate_hit_area :: "'g env \<Rightarrow> 'g \<Rightarrow> 'g option list \<Rightarrow> real \<Rightarrow> real" where
  "accumulate_hit_area env g [] hit = hit"
| "accumulate_hit_area env g (None # rest) hit = accumulate_hit_area env g rest hit"
| "accumulate_hit_area env g (Some result_geometry # rest) hit =
     (case Intersection env g result_geometry of
        None \<Rightarrow> accumulate_hit_area env g rest hit
      | Some intersection \<Rightarrow>
          (let geom_type = GetGeometryType env intersection in
           if geom_type = wkbPolygon \<or> geom_type = wkbMultiPolygon
           then accumulate_hit_area env g rest (float_add env hit (GetArea env intersection))
           else accumulate_hit_area env g rest hit))"

definition set_geometry_areas :: "'g env \<Rightarrow> 'g Analysis \<Rightarrow> error + 'g Analysis" where
  "set_geometry_areas env self =
     (case run_on_input_geometry self of
        None \<Rightarrow> Inl (AttributeError ''GetArea'')
      | Some g \<Rightarrow>
          (let self1 = self\<lparr> input_geometry_area := Some (round_ndigits env (GetArea env g) 2) \<rparr> in
           if length (geometries self1) = 0 then Inr self1
           else Inr (self1\<lparr> hit_area :=
                        Some (round_ndigits env (accumulate_hit_area env g (geometries self1) 0) 2) \<rparr>)))"

text \<open>
  \<^verbatim>\<open>str.splitlines()\<close> on code points below 256 (line boundaries: LF, CR, CR LF, VT, FF,
  FS, GS, RS and NEL) and \<^verbatim>\<open>str.lstrip('- ')\<close>.
\<close>

definition is_line_boundary :: "char \<Rightarrow> bool" where
  "is_line_boundary c = ((of_char c :: nat) \<in> {10, 11, 12, 13, 28, 29, 30, 133})"

fun splitlines_from :: "string \<Rightarrow> string \<Rightarrow> string list" where
  "splitlines_from line [] = (if line = [] then [] else [line])"
| "splitlines_from line [c] =
     (if is_line_boundary c then [line] else [line @ [c]])"
| "splitlines_from line (c # d # rest) =
     (if c = char_of (13::nat) \<and> d = char_of (10::nat) then line # splitlines_from [] rest
      else if is_line_boundary c then line # splitlines_from [] (d # rest)
      else splitlines_from (line @ [c]) (d # rest))"

definition splitlines :: "string \<Rightarrow> string list" where
  "splitlines s = splitlines_from [] s"

definition lstrip_dash_space :: "string \<Rightarrow> string" where
  "lstrip_dash_space s = dropWhile (\<lambda>c. c = CHR ''-'' \<or> c = CHR '' '') s"

text \<open>\<^verbatim>\<open>__set_guidance_data\<close>, called only with guidance data \<open>g\<close> present.\<close>

definition set_guidance_data :: "Geolett \<Rightarrow> 'g Analysis \<Rightarrow> 'g Analysis" where
  "set_guidance_data g self =
     (let self1 = (if result_status self \<noteq> NO_HIT_GREEN
                   then self\<lparr> description := Some (forklarendeTekst g),
                              guidance_text := Some (dialogtekst g) \<rparr>
                   else self)
      in self1\<lparr> guidance_uri := guidance_uri self1 @ lenker g,
                possible_actions := possible_actions self1
                   @ map lstrip_dash_space (splitlines (muligeTiltak g)) \<rparr>)"

text \<open>\<^verbatim>\<open>__set_quality_measurements\<close>.\<close>

definition set_quality_measurements :: "'g env \<Rightarrow> string \<Rightarrow> 'g Analysis \<Rightarrow> 'g Analysis" where
  "set_quality_measurements env context self =
     (let quality_indicators = get_quality_indicator_configs (quality_configs env) (dataset_id self) in
      if length quality_indicators = 0 then self
      else
        (case get_dataset_quality env (dataset_id self) quality_indicators context (themes self) of
           (dataset_qms, dataset_warnings) \<Rightarrow>
             (case get_object_quality env quality_indicators (data self) of
                (object_qms, object_warnings) \<Rightarrow>
                  self\<lparr> quality_measurement := quality_measurement self @ dataset_qms @ object_qms,
                        quality_warning := quality_warning self @ dataset_warnings @ object_warnings \<rparr>)))"

text \<open>
  \<^verbatim>\<open>_QMS_SORT_ORDER\<close> and \<^verbatim>\<open>__sort_quality_measurements\<close>: one pass over the fixed
  order, each pass appending the measurements of that dimension.
\<close>

definition QMS_SORT_ORDER :: "string list" where
  "QMS_SORT_ORDER =
     [''fullstendighet_dekning'',
      ''stedfestingsn'' @ [char_of (248::nat)] @ ''yaktighet'',
      ''egnethet_reguleringsplan'',
      ''egnethet_kommuneplan'',
      ''egnethet_byggesak'']"

definition sort_quality_measurements :: "'g Analysis \<Rightarrow> QualityMeasurement list" where
  "sort_quality_measurements self =
     foldl (\<lambda>qms id'.
              (let result = filter (\<lambda>qm. quality_dimension_id qm = id') (quality_measurement self) in
               if length result > 0 then qms @ result else qms))
       [] QMS_SORT_ORDER"

text \<open>
  The \<^verbatim>\<open>qualityMeasurement\<close> entry of \<^verbatim>\<open>to_dict\<close>; \<^verbatim>\<open>QualityMeasurement.to_dict\<close>
  is not among the source files and is a parameter.
\<close>

definition to_dict_qualityMeasurement :: "(QualityMeasurement \<Rightarrow> 'd) \<Rightarrow> 'g Analysis \<Rightarrow> 'd list" where
  "to_dict_qualityMeasurement item_to_dict self = map item_to_dict (sort_quality_measurements self)"

text \<open>
  The two methods that \<^verbatim>\<open>Analysis\<close> declares abstract and \<^verbatim>\<open>run\<close> calls on
  \<^verbatim>\<open>self\<close>: what they resolve to on the concrete class.
\<close>

record 'g hooks =
  run_queries :: "'g Analysis \<Rightarrow> error + 'g Analysis"
  set_distance_to_object :: "'g Analysis \<Rightarrow> error + 'g Analysis"

text \<open>
  \<^verbatim>\<open>run\<close> returns, next to its result, the methods it has called in order, so that a
  stage that is not invoked can be told from one that changes nothing.
\<close>

datatype call =
    Call_set_input_geometry
  | Call_run_coverage_analysis
  | Call_run_queries
  | Call_set_default_data
  | Call_set_geometry_areas
  | Call_set_distance_to_object
  | Call_set_guidance_data
  | Call_set_quality_measurements

text \<open>The end of \<^verbatim>\<open>run\<close>, from \<^verbatim>\<open>add_run_algorithm('deliver result')\<close> on.\<close>

definition deliver_result ::
  "'g env \<Rightarrow> string \<Rightarrow> bool \<Rightarrow> bool \<Rightarrow> call list \<Rightarrow> 'g Analysis \<Rightarrow> call list \<times> (error + 'g Analysis)" where
  "deliver_result env context include_guidance include_quality_measurement calls self =
     (let self1 = add_run_algorithm ''deliver result'' self;
          self2 = self1\<lparr> run_on_input_geometry_json :=
                     Some (create_run_on_input_geometry_json env (run_on_input_geometry self1)
                             (epsg self1) (orig_epsg self1)) \<rparr>;
          self3 = set_default_data env self2;
          calls3 = calls @ [Call_set_default_data];
          guided = (include_guidance \<and> geolett self3 \<noteq> None);
          self4 = (case geolett self3 of
                     Some g \<Rightarrow> if include_guidance then set_guidance_data g self3 else self3
                   | None \<Rightarrow> self3);
          calls4 = (if guided then calls3 @ [Call_set_guidance_data] else calls3)
      in if include_quality_measurement
         then (calls4 @ [Call_set_quality_measurements], Inr (set_quality_measurements env context self4))
         else (calls4, Inr self4))"

text \<open>The distance stage of \<^verbatim>\<open>run\<close> and what follows it.\<close>

definition distance_stage ::
  "'g env \<Rightarrow> 'g hooks \<Rightarrow> string \<Rightarrow> bool \<Rightarrow> bool \<Rightarrow> call list \<Rightarrow> 'g Analysis
     \<Rightarrow> call list \<times> (error + 'g Analysis)" where
  "distance_stage env hooks context include_guidance include_quality_measurement calls self =
     (if result_status self \<in> set [NO_HIT_GREEN, NO_HIT_YELLOW] then
        (case set_distance_to_object hooks self of
           Inl e \<Rightarrow> (calls @ [Call_set_distance_to_object], Inl e)
         | Inr self1 \<Rightarrow>
             deliver_result env context include_guidance include_quality_measurement
               (calls @ [Call_set_distance_to_object]) self1)
      else deliver_result env context include_guidance include_quality_measurement calls self)"

text \<open>\<^verbatim>\<open>Analysis.run\<close>.\<close>

definition run ::
  "'g env \<Rightarrow> 'g hooks \<Rightarrow> string \<Rightarrow> bool \<Rightarrow> bool \<Rightarrow> 'g Analysis \<Rightarrow> call list \<times> (error + 'g Analysis)" where
  "run env hooks context include_guidance include_quality_measurement self =
     (let self1 = set_input_geometry env self in
      case run_coverage_analysis env self1 of
        Inl e \<Rightarrow> ([Call_set_input_geometry, Call_run_coverage_analysis], Inl e)
      | Inr self2 \<Rightarrow>
          if has_coverage self2 then
            (case run_queries hooks self2 of
               Inl e \<Rightarrow> ([Call_set_input_geometry, Call_run_coverage_analysis, Call_run_queries], Inl e)
             | Inr self3 \<Rightarrow>
                 if result_status self3 = TIMEOUT \<or> result_status self3 = ERROR
                 then ([Call_set_input_geometry, Call_run_coverage_analysis, Call_run_queries,
                        Call_set_default_data],
                       Inr (set_default_data env self3))
                 else
                   (case set_geometry_areas env self3 of
                      Inl e \<Rightarrow> ([Call_set_input_geometry, Call_run_coverage_analysis, Call_run_queries,
                                 Call_set_geometry_areas], Inl e)
                    | Inr self4 \<Rightarrow>
                        distance_stage env hooks context include_guidance include_quality_measurement
                          [Call_set_input_geometry, Call_run_coverage_analysis, Call_run_queries,
                           Call_set_geometry_areas] self4))
          else
            distance_stage env hooks context include_guidance include_quality_measurement
              [Call_set_input_geometry, Call_run_coverage_analysis]
              (self2\<lparr> result_status := NO_HIT_YELLOW \<rparr>))"

section \<open>Attribute lookup on the classes\<close>

text \<open>
  What a class body binds a name to: a method that takes one step label and updates the
  object (\<^verbatim>\<open>add_run_algorithm\<close> is the only one), another concrete method, or a method
  declared with \<^verbatim>\<open>@abstractmethod\<close>. Names with two leading underscores are written as
  Python mangles them.
\<close>

datatype 'g attribute =
    Step_method "string \<Rightarrow> 'g Analysis \<Rightarrow> 'g Analysis"
  | Method
  | Abstract_method

definition Analysis_namespace :: "(string \<times> 'g attribute) list" where
  "Analysis_namespace =
     [(''__init__'', Method),
      (''run'', Method),
      (''add_run_algorithm'', Step_method add_run_algorithm),
      (''set_default_data'', Method),
      (''_Analysis__run_coverage_analysis'', Method),
      (''_Analysis__set_input_geometry'', Method),
      (''_Analysis__set_geometry_areas'', Method),
      (''_Analysis__set_guidance_data'', Method),
      (''_Analysis__set_quality_measurements'', Method),
      (''_Analysis__sort_quality_measurements'', Method),
      (''to_dict'', Method),
      (''run_queries'', Abstract_method),
      (''set_distance_to_object'', Abstract_method)]"

definition OgcApiAnalysis_namespace :: "(string \<times> 'g attribute) list" where
  "OgcApiAnalysis_namespace =
     [(''__init__'', Method),
      (''_run_queries'', Method),
      (''_set_distance_to_object'', Method),
      (''_OgcApiAnalysis__parse_response'', Method),
      (''_OgcApiAnalysis__map_properties'', Method),
      (''_OgcApiAnalysis__get_geometry_from_response'', Method)]"

text \<open>The method resolution order of \<^verbatim>\<open>class OgcApiAnalysis(Analysis)\<close>.\<close>

definition OgcApiAnalysis_mro :: "(string \<times> 'g attribute) list list" where
  "OgcApiAnalysis_mro = [OgcApiAnalysis_namespace, Analysis_namespace]"

text \<open>Lookup of a method name: the first class of the order that binds it.\<close>

fun class_lookup :: "(string \<times> 'g attribute) list list \<Rightarrow> string \<Rightarrow> 'g attribute option" where
  "class_lookup [] name = None"
| "class_lookup (namespace # mro) name =
     (case map_of namespace name of
        Some a \<Rightarrow> Some a
      | None \<Rightarrow> class_lookup mro name)"

definition is_abstract :: "'g attribute option \<Rightarrow> bool" where
  "is_abstract a = (case a of Some Abstract_method \<Rightarrow> True | _ \<Rightarrow> False)"

text \<open>
  \<^verbatim>\<open>__abstractmethods__\<close> as \<^verbatim>\<open>ABCMeta\<close> computes it: the names bound in some class
  of the order whose lookup still ends at an abstract declaration.
\<close>

definition abstract_methods :: "(string \<times> 'g attribute) list list \<Rightarrow> string list" where
  "abstract_methods mro =
     filter (\<lambda>name. is_abstract (class_lookup mro name)) (remdups (concat (map (map fst) mro)))"

text \<open>
  Creating an object of a class with \<^verbatim>\<open>ABC\<close> among its bases: a \<^verbatim>\<open>TypeError\<close> that
  lists the abstract methods when some remain, else the object \<^verbatim>\<open>__init__\<close> sets up.
\<close>

definition OgcApiAnalysis_new ::
  "uuid \<Rightarrow> DatasetConfig \<Rightarrow> 'g \<Rightarrow> int \<Rightarrow> int \<Rightarrow> int option \<Rightarrow> error + 'g Analysis" where
  "OgcApiAnalysis_new dataset_id' config' geometry' epsg' orig_epsg' buffer' =
     (case abstract_methods (OgcApiAnalysis_mro :: (string \<times> 'g attribute) list list) of
        [] \<Rightarrow> Inr (Analysis_init dataset_id' config' geometry' epsg' orig_epsg' buffer')
      | names \<Rightarrow> Inl (TypeError (concat (map (\<lambda>n. n @ '' '') names))))"

text \<open>
  A call \<^verbatim>\<open>self.name(label)\<close>: \<^verbatim>\<open>AttributeError\<close> when no class of the order binds
  the name. The source makes such a call only with a step label; a method that is not a
  step method does not take that argument.
\<close>

definition call_step_method ::
  "(string \<times> 'g attribute) list list \<Rightarrow> string \<Rightarrow> string \<Rightarrow> 'g Analysis \<Rightarrow> error + 'g Analysis" where
  "call_step_method mro name label self =
     (case class_lookup mro name of
        None \<Rightarrow> Inl (AttributeError name)
      | Some (Step_method m) \<Rightarrow> Inr (m label self)
      | Some Method \<Rightarrow> Inl (TypeError name)
      | Some Abstract_method \<Rightarrow> Inl (TypeError name))"

section \<open>The OGC API analysis (models/ogc\_api\_analysis.py)\<close>

text \<open>\<^verbatim>\<open>sys.maxsize\<close> on a 64-bit platform.\<close>

definition maxsize :: int where
  "maxsize = 9223372036854775807"

text \<open>\<^verbatim>\<open>__get_geometry_from_response\<close>.\<close>

definition get_geometry_from_response :: "'g env \<Rightarrow> Feature \<Rightarrow> 'g option" where
  "get_geometry_from_response env feature =
     transform_geometry env (geometry_from_json env (feature_geometry feature)) 4326 25833"

text \<open>\<^verbatim>\<open>__map_properties\<close>; \<^verbatim>\<open>mapping.split('.')[-1]\<close> is the text after the last dot.\<close>

definition last_segment :: "string \<Rightarrow> string" where
  "last_segment mapping = rev (takeWhile (\<lambda>c. c \<noteq> CHR ''.'') (rev mapping))"

definition map_properties :: "'g env \<Rightarrow> Feature \<Rightarrow> string list \<Rightarrow> props" where
  "map_properties env feature mappings =
     foldl (\<lambda>props' mapping.
              AList.update (last_segment mapping) (pydash_get env (feature_properties feature) mapping) props')
       [] mappings"

text \<open>\<^verbatim>\<open>__parse_response\<close>: the two parallel lists.\<close>

definition parse_response :: "'g env \<Rightarrow> 'g Analysis \<Rightarrow> Feature list \<Rightarrow> props list \<times> 'g option list" where
  "parse_response env self features =
     (map (\<lambda>feature. map_properties env feature (properties (config self))) features,
      map (get_geometry_from_response env) features)"

text \<open>
  The loop of \<^verbatim>\<open>_run_queries\<close> over the layers that remain, with the local
  \<^verbatim>\<open>geolett_data\<close>; a \<^verbatim>\<open>break\<close> ends the recursion.
\<close>

fun query_layers ::
  "'g env \<Rightarrow> Layer list \<Rightarrow> Geolett option \<Rightarrow> 'g Analysis \<Rightarrow> error + (Geolett option \<times> 'g Analysis)" where
  "query_layers env [] geolett_data self = Inr (geolett_data, self)"
| "query_layers env (layer # rest) geolett_data self =
     (case query_ogc_api env (ogc_api (config self)) (layer_ogc_api layer) (geom_field (config self))
             (run_on_input_geometry self) (epsg self) of
        (status_code, api_response) \<Rightarrow>
          if status_code = 408 then Inr (geolett_data, self\<lparr> result_status := TIMEOUT \<rparr>)
          else if status_code \<noteq> 200 then Inr (geolett_data, self\<lparr> result_status := ERROR \<rparr>)
          else
            (case call_step_method OgcApiAnalysis_mro ''_add_run_algorithm''
                    (''intersect layer '' @ layer_ogc_api layer) self of
               Inl e \<Rightarrow> Inl e
             | Inr self1 \<Rightarrow>
                 (case api_response of
                    None \<Rightarrow> query_layers env rest geolett_data self1
                  | Some features \<Rightarrow>
                      (case parse_response env self1 features of
                         (response_properties, response_geometries) \<Rightarrow>
                           if length response_properties > 0 then
                             (case get_geolett_data env (geolett_id layer) of
                                Inl e \<Rightarrow> Inl e
                              | Inr geolett_data' \<Rightarrow>
                                  Inr (geolett_data',
                                       self1\<lparr> data := response_properties,
                                              geometries := response_geometries,
                                              raster_result := get_raster_result env (config_wms (config self1)) (layer_wms layer),
                                              cartography := get_cartography_url env (config_wms (config self1)) (layer_wms layer),
                                              result_status := layer_result_status layer \<rparr>))
                           else query_layers env rest geolett_data self1))))"

text \<open>\<^verbatim>\<open>OgcApiAnalysis._run_queries\<close>.\<close>

definition OgcApiAnalysis__run_queries :: "'g env \<Rightarrow> 'g Analysis \<Rightarrow> error + 'g Analysis" where
  "OgcApiAnalysis__run_queries env self =
     (case layers (config self) of
        [] \<Rightarrow> Inl IndexError
      | first_layer # _ \<Rightarrow>
          (case get_geolett_data env (geolett_id first_layer) of
             Inl e \<Rightarrow> Inl e
           | Inr geolett_data \<Rightarrow>
               (case query_layers env (layers (config self)) geolett_data self of
                  Inl e \<Rightarrow> Inl e
                | Inr (geolett_data', self1) \<Rightarrow> Inr (self1\<lparr> geolett := geolett_data' \<rparr>))))"

text \<open>
  The loop of \<^verbatim>\<open>_set_distance_to_object\<close> over the features: the rounded distance of
  every feature that has a geometry.
\<close>

fun feature_distances :: "'g env \<Rightarrow> 'g option \<Rightarrow> Feature list \<Rightarrow> error + int list" where
  "feature_distances env run_on [] = Inr []"
| "feature_distances env run_on (feature # rest) =
     (case get_geometry_from_response env feature of
        None \<Rightarrow> feature_distances env run_on rest
      | Some feature_geom \<Rightarrow>
          (case run_on of
             None \<Rightarrow> Inl (AttributeError ''Distance'')
           | Some g \<Rightarrow>
               (case feature_distances env run_on rest of
                  Inl e \<Rightarrow> Inl e
                | Inr distances \<Rightarrow> Inr (py_round (Distance env g feature_geom) # distances))))"

text \<open>\<^verbatim>\<open>OgcApiAnalysis._set_distance_to_object\<close>.\<close>

definition OgcApiAnalysis__set_distance_to_object :: "'g env \<Rightarrow> 'g Analysis \<Rightarrow> error + 'g Analysis" where
  "OgcApiAnalysis__set_distance_to_object env self =
     (let buffered_geom = create_buffered_geometry env (geometry self) 20000 (epsg self) in
      case layers (config self) of
        [] \<Rightarrow> Inl IndexError
      | layer # _ \<Rightarrow>
          (case query_ogc_api env (ogc_api (config self)) (layer_ogc_api layer) (geom_field (config self))
                  (Some buffered_geom) (epsg self) of
             (_, None) \<Rightarrow> Inr (self\<lparr> distance_to_object := maxsize \<rparr>)
           | (_, Some features) \<Rightarrow>
               (case feature_distances env (run_on_input_geometry self) features of
                  Inl e \<Rightarrow> Inl e
                | Inr distances \<Rightarrow>
                    (let sorted_distances = sort distances in
                     case call_step_method OgcApiAnalysis_mro ''_add_run_algorithm'' ''get distance'' self of
                       Inl e \<Rightarrow> Inl e
                     | Inr self1 \<Rightarrow>
                         if length sorted_distances = 0
                         then Inr (self1\<lparr> distance_to_object := maxsize \<rparr>)
                         else Inr (self1\<lparr> distance_to_object := sorted_distances ! 0 \<rparr>)))))"

section \<open>Notions used in the claims\<close>

text \<open>The position of a dimension id in the fixed order (5 when it is not in the list).\<close>

definition dimension_priority :: "string \<Rightarrow> nat" where
  "dimension_priority id' = length (takeWhile (\<lambda>x. x \<noteq> id') QMS_SORT_ORDER)"

text \<open>The COVERAGE-kind indicators configured for the dataset of an analysis.\<close>

definition coverage_indicators_of :: "'g env \<Rightarrow> 'g Analysis \<Rightarrow> QualityIndicator list" where
  "coverage_indicators_of env self =
     filter (\<lambda>indicator. indicator_type indicator = COVERAGE)
       (get_quality_indicator_configs (quality_configs env) (dataset_id self))"

text \<open>
  The hit area in the words of the specification: the areas of the polygon and multi-polygon
  intersections of the working geometry with the result geometries that are present, in the
  order of the result geometries, and their float sum from 0.
\<close>

definition polygon_intersection_areas :: "'g env \<Rightarrow> 'g \<Rightarrow> 'g option list \<Rightarrow> real list" where
  "polygon_intersection_areas env g result_geometries =
     concat (map (\<lambda>result_geometry.
        case result_geometry of
          None \<Rightarrow> []
        | Some x \<Rightarrow>
            (case Intersection env g x of
               None \<Rightarrow> []
             | Some intersection \<Rightarrow>
                 if GetGeometryType env intersection = wkbPolygon
                    \<or> GetGeometryType env intersection = wkbMultiPolygon
                 then [GetArea env intersection] else [])) result_geometries)"

definition float_sum :: "'g env \<Rightarrow> real list \<Rightarrow> real" where
  "float_sum env xs = foldl (float_add env) 0 xs"

text \<open>
  The values that the coverage-value source returns for an indicator and the working
  geometry of a run.
\<close>

definition coverage_source_values :: "'g env \<Rightarrow> QualityIndicator \<Rightarrow> 'g Analysis \<Rightarrow> string list" where
  "coverage_source_values env indicator self =
     fst (get_values_from_web_service env indicator
            (run_on_input_geometry (set_input_geometry env self)) (epsg self))"

section \<open>Concrete inputs\<close>

text \<open>
  A coverage source that answers every request with the two values
  \<^verbatim>\<open>ikkeKartlagt\<close>, \<^verbatim>\<open>kartlagt\<close> and 50 percent; geometries are numbered.
\<close>

definition partly_mapped_source :: "nat coverage_env" where
  "partly_mapped_source =
     \<lparr> get_values_from_wfs = (\<lambda>w g e. ([''ikkeKartlagt'', ''kartlagt''], 50)),
       get_codelist = (\<lambda>n. None),
       get_threshold_values = (\<lambda>q. [''ikkeKartlagt'']),
       float_str = (\<lambda>r. ''50.0'') \<rparr>"

definition coverage_indicator :: QualityIndicator where
  "coverage_indicator =
     \<lparr> indicator_type = COVERAGE,
       qi_quality_dimension_id = ''fullstendighet_dekning'',
       qi_quality_dimension_name = ''Fullstendighet'',
       quality_warning_text = ''Datasettet er ikke kartlagt'',
       wfs = Some ''https://wfs.example/dekning'' \<rparr>"

text \<open>
  Rounding at a decimal place in exact arithmetic, a tie to the even neighbour. On the small
  integers that the concrete inputs use as areas, float addition and \<^verbatim>\<open>round(x, 2)\<close>
  are exact, so the concrete collaborators take exact addition and this rounding.
\<close>

definition exact_round_ndigits :: "real \<Rightarrow> nat \<Rightarrow> real" where
  "exact_round_ndigits x ndigits = of_int (py_round (x * 10 ^ ndigits)) / 10 ^ ndigits"

text \<open>
  A complete set of collaborators over numbered geometries: no quality configuration, a
  query that answers 200 without a response body, an empty guidance register.
\<close>

definition plain_env :: "nat env" where
  "plain_env =
     \<lparr> get_values_from_wfs = (\<lambda>w g e. ([], 0)),
       get_codelist = (\<lambda>n. None),
       get_threshold_values = (\<lambda>q. []),
       float_str = (\<lambda>r. ''0.0''),
       quality_configs = [],
       create_buffered_geometry = (\<lambda>g b e. g + nat b),
       Clone = (\<lambda>g. g),
       GetArea = (\<lambda>g. real g),
       Intersection = (\<lambda>a b. Some (min a b)),
       GetGeometryType = (\<lambda>g. 3),
       Distance = (\<lambda>a b. \<bar>real a - real b\<bar>),
       create_run_on_input_geometry_json = (\<lambda>g e oe. ''{}''),
       get_kartkatalog_metadata = (\<lambda>i. Some ''metadata''),
       get_dataset_quality = (\<lambda>i q c t. ([], [])),
       get_object_quality = (\<lambda>q d. ([], [])),
       fetch_geolett_data = Some [],
       fetch_local_geolett_data = [],
       id_in = (\<lambda>i ids. False),
       query_ogc_api = (\<lambda>a l f g e. (200, None)),
       geometry_from_json = (\<lambda>j. None),
       transform_geometry = (\<lambda>g a b. g),
       pydash_get = (\<lambda>p m. None),
       get_raster_result = (\<lambda>a b. None),
       get_cartography_url = (\<lambda>a b. None),
       float_add = (\<lambda>a b. a + b),
       round_ndigits = exact_round_ndigits \<rparr>"

definition one_layer :: Layer where
  "one_layer =
     \<lparr> geolett_id = None, layer_ogc_api = ''collections/omrade'', layer_wms = ''omrade'',
       layer_result_status = HIT_RED \<rparr>"

definition one_layer_config :: DatasetConfig where
  "one_layer_config =
     \<lparr> config_title = ''Kulturminner'', config_themes = [''kulturminner''], layers = [one_layer],
       ogc_api = ''https://ogc.example'', geom_field = ''geom'', config_wms = ''https://wms.example'',
       properties = [] \<rparr>"

text \<open>A fresh analysis of geometry 7 against that dataset, without buffer.\<close>

definition fresh_analysis :: "nat Analysis" where
  "fresh_analysis = Analysis_init ''d1'' one_layer_config 7 25833 4326 None"

text \<open>An indicator of another kind, without a coverage source of its own.\<close>

definition object_indicator :: QualityIndicator where
  "object_indicator =
     \<lparr> indicator_type = OTHER_KIND,
       qi_quality_dimension_id = ''egnethet_byggesak'',
       qi_quality_dimension_name = ''Byggesak'',
       quality_warning_text = ''Ikke egnet'',
       wfs = None \<rparr>"

text \<open>
  The two overridden methods of a class whose query finds no record and whose distance
  search finds no object.
\<close>

definition no_record_hooks :: "nat hooks" where
  "no_record_hooks =
     \<lparr> run_queries = (\<lambda>self. Inr self),
       set_distance_to_object = (\<lambda>self. Inr (self\<lparr> distance_to_object := maxsize \<rparr>)) \<rparr>"

text \<open>Configurations with two coverage indicators, and with one coverage indicator second or first.\<close>

definition two_coverage_env :: "nat env" where
  "two_coverage_env =
     plain_env\<lparr> quality_configs :=
       [\<lparr> qc_dataset_id = None, indicators = [coverage_indicator, coverage_indicator] \<rparr>] \<rparr>"

definition coverage_second_env :: "nat env" where
  "coverage_second_env =
     plain_env\<lparr> quality_configs :=
                   [\<lparr> qc_dataset_id = Some ''d1'', indicators = [object_indicator, coverage_indicator] \<rparr>],
                get_values_from_wfs := (\<lambda>w g e. ([''kartlagt''], 100)) \<rparr>"

definition coverage_first_env :: "nat env" where
  "coverage_first_env =
     plain_env\<lparr> quality_configs :=
                   [\<lparr> qc_dataset_id = Some ''d1'', indicators = [coverage_indicator, object_indicator] \<rparr>],
                get_values_from_wfs := (\<lambda>w g e. ([''kartlagt''], 100)) \<rparr>"

text \<open>The two overridden methods of a class whose query finds one record with a geometry and one without.\<close>

definition one_record_hooks :: "nat hooks" where
  "one_record_hooks =
     \<lparr> run_queries = (\<lambda>self. Inr (self\<lparr> geometries := [Some 5, None], result_status := HIT_RED \<rparr>)),
       set_distance_to_object = (\<lambda>self. Inr (self\<lparr> distance_to_object := maxsize \<rparr>)) \<rparr>"






text \<open>One coverage indicator, with a source that returns only ikkeRelevant, or only ikkeKartlagt.\<close>

definition not_relevant_env :: "nat env" where
  "not_relevant_env =
     plain_env\<lparr> quality_configs := [\<lparr> qc_dataset_id = None, indicators = [coverage_indicator] \<rparr>],
                get_values_from_wfs := (\<lambda>w g e. ([''ikkeRelevant''], 0)) \<rparr>"

definition not_mapped_env :: "nat env" where
  "not_mapped_env =
     plain_env\<lparr> quality_configs := [\<lparr> qc_dataset_id = None, indicators = [coverage_indicator] \<rparr>],
                get_values_from_wfs := (\<lambda>w g e. ([''ikkeKartlagt''], 0)) \<rparr>"

text \<open>
  Query capabilities that answer 200 with one feature (whose geometry is number 10) and with
  an empty feature list.
\<close>

definition point_feature :: Feature where
  "point_feature = \<lparr> feature_geometry = ''point 10'', feature_properties = ''none'' \<rparr>"

definition one_feature_env :: "nat env" where
  "one_feature_env =
     plain_env\<lparr> query_ogc_api := (\<lambda>a l f g e. (200, Some [point_feature])),
                geometry_from_json := (\<lambda>j. Some 10) \<rparr>"

definition no_feature_env :: "nat env" where
  "no_feature_env = plain_env\<lparr> query_ogc_api := (\<lambda>a l f g e. (200, Some [])) \<rparr>"

text \<open>
  A coverage source that returns the empty string as its only value, for an indicator whose
  configured threshold values include the empty string.
\<close>

definition empty_threshold_source :: "nat coverage_env" where
  "empty_threshold_source =
     \<lparr> get_values_from_wfs = (\<lambda>w g e. ([[]], 50)),
       get_codelist = (\<lambda>n. None),
       get_threshold_values = (\<lambda>q. [''ikkeKartlagt'', []]),
       float_str = (\<lambda>r. ''50.0'') \<rparr>"

section \<open>Properties of the coverage evaluator\<close>

lemma has_coverage_values_iff:
  "has_coverage_values values \<longleftrightarrow> \<not> (''ikkeKartlagt'' \<in> set values \<and> set values \<subseteq> {''ikkeKartlagt''})"
  by (auto simp: has_coverage_values_def)

lemma get_coverage_quality_has_coverage:
  assumes "get_values_from_web_service env qi g ep = (values, pct)"
  shows "snd (snd (get_coverage_quality env qi g ep)) = (values \<noteq> [] \<and> has_coverage_values values)"
  using assms by (simp add: get_coverage_quality_def get_coverage_quality_data_def Let_def)

lemma get_coverage_quality_empty:
  assumes "get_values_from_web_service env qi g ep = ([], pct)"
  shows "get_coverage_quality env qi g ep = ([], None, False)"
  using assms by (simp add: get_coverage_quality_def get_coverage_quality_data_def)

lemma py_any_str_filter:
  "py_any_str (filter P xs) \<longleftrightarrow> (\<exists>x \<in> set xs. P x \<and> x \<noteq> [])"
  by (auto simp: py_any_str_def)

lemma should_warn_iff:
  "should_warn threshold_values vs \<longleftrightarrow> (\<exists>v \<in> set vs. v \<noteq> [] \<and> v \<in> set threshold_values)"
  by (auto simp: should_warn_def py_any_str_filter)

lemma get_warning_text_cases:
  "get_warning_text env qi vs pct =
     (if \<exists>v \<in> set vs. v \<noteq> [] \<and> v \<in> set (get_threshold_values env qi)
      then (if 0 < pct \<and> pct < 100
            then Some (replace_dot_comma (float_str env pct) @ '' % av '' @ lower (quality_warning_text qi))
            else Some (quality_warning_text qi))
      else None)"
  by (simp add: get_warning_text_def should_warn_iff Let_def)

lemma lower_example: "lower ''Datasettet er IKKE kartlagt'' = ''datasettet er ikke kartlagt''"
  by code_simp

lemma replace_example: "replace_dot_comma ''12.5'' = ''12,5''"
  by (simp add: replace_dot_comma_def)

section \<open>Properties of the measurement order\<close>

lemma foldl_extend_blocks:
  "foldl (\<lambda>qms id'. (let result = filter (\<lambda>qm. quality_dimension_id qm = id') ms in
                        if length result > 0 then qms @ result else qms)) acc ids
     = acc @ concat (map (\<lambda>id'. filter (\<lambda>qm. quality_dimension_id qm = id') ms) ids)"
  by (induction ids arbitrary: acc) (auto simp: Let_def)

lemma sort_quality_measurements_blocks:
  "sort_quality_measurements self
     = concat (map (\<lambda>id'. filter (\<lambda>qm. quality_dimension_id qm = id') (quality_measurement self)) QMS_SORT_ORDER)"
  unfolding sort_quality_measurements_def foldl_extend_blocks by simp

lemma block_sorted:
  "sorted (map (\<lambda>qm. p (quality_dimension_id qm)) (filter (\<lambda>qm. quality_dimension_id qm = a) ms))"
  by (induction ms) auto

lemma blocks_sorted:
  "sorted (map p ids) \<Longrightarrow>
   sorted (map (\<lambda>qm. p (quality_dimension_id qm))
             (concat (map (\<lambda>id'. filter (\<lambda>qm. quality_dimension_id qm = id') ms) ids)))"
proof (induction ids)
  case Nil
  then show ?case by simp
next
  case (Cons a ids)
  then show ?case
    by (auto simp: sorted_append block_sorted)
qed

lemma blocks_filter:
  "distinct ids \<Longrightarrow>
   filter (\<lambda>qm. quality_dimension_id qm = i)
      (concat (map (\<lambda>id'. filter (\<lambda>qm. quality_dimension_id qm = id') ms) ids))
   = (if i \<in> set ids then filter (\<lambda>qm. quality_dimension_id qm = i) ms else [])"
proof (induction ids)
  case Nil
  then show ?case by simp
next
  case (Cons a ids)
  show ?case
  proof (cases "a = i")
    case True
    with Cons show ?thesis by simp
  next
    case False
    then have "filter (\<lambda>x. quality_dimension_id x = a \<and> quality_dimension_id x = i) ms = []"
      by (auto simp: filter_empty_conv)
    with False Cons show ?thesis by auto
  qed
qed

lemma QMS_SORT_ORDER_distinct: "distinct QMS_SORT_ORDER"
  by (simp add: QMS_SORT_ORDER_def)

lemma QMS_SORT_ORDER_priorities: "map dimension_priority QMS_SORT_ORDER = [0, 1, 2, 3, 4]"
  by (simp add: QMS_SORT_ORDER_def dimension_priority_def)

section \<open>Properties of the attribute lookup\<close>

lemma OgcApiAnalysis_abstract_methods:
  "abstract_methods (OgcApiAnalysis_mro :: (string \<times> 'g attribute) list list)
     = [''run_queries'', ''set_distance_to_object'']"
  by (simp add: abstract_methods_def OgcApiAnalysis_mro_def OgcApiAnalysis_namespace_def
      Analysis_namespace_def is_abstract_def)

lemma add_run_algorithm_unresolved:
  "class_lookup (OgcApiAnalysis_mro :: (string \<times> 'g attribute) list list) ''_add_run_algorithm'' = None"
  by (simp add: OgcApiAnalysis_mro_def OgcApiAnalysis_namespace_def Analysis_namespace_def)

lemma call_add_run_algorithm_fails:
  "call_step_method OgcApiAnalysis_mro ''_add_run_algorithm'' label self = Inl (AttributeError ''_add_run_algorithm'')"
  by (simp add: call_step_method_def add_run_algorithm_unresolved)

section \<open>Properties of the pipeline stages\<close>

lemma set_input_geometry_frame:
  "dataset_id (set_input_geometry env s) = dataset_id s"
  "config (set_input_geometry env s) = config s"
  "epsg (set_input_geometry env s) = epsg s"
  "geometry (set_input_geometry env s) = geometry s"
  "hit_area (set_input_geometry env s) = hit_area s"
  "input_geometry_area (set_input_geometry env s) = input_geometry_area s"
  "distance_to_object (set_input_geometry env s) = distance_to_object s"
  "result_status (set_input_geometry env s) = result_status s"
  "geolett (set_input_geometry env s) = geolett s"
  "geometries (set_input_geometry env s) = geometries s"
  "has_coverage (set_input_geometry env s) = has_coverage s"
  "quality_measurement (set_input_geometry env s) = quality_measurement s"
  by (simp_all add: set_input_geometry_def add_run_algorithm_def Let_def)

lemma set_input_geometry_working:
  "run_on_input_geometry (set_input_geometry env s)
     = Some (if buffer s > 0 then create_buffered_geometry env (geometry s) (buffer s) (epsg s)
             else Clone env (geometry s))"
  by (simp add: set_input_geometry_def add_run_algorithm_def Let_def)

lemma run_coverage_analysis_many:
  assumes "1 < length (coverage_indicators_of env s)"
  shows "run_coverage_analysis env s = Inl (DokAnalysisException ''A dataset can only have one coverage quality indicator'')"
proof -
  let ?qis = "get_quality_indicator_configs (quality_configs env) (dataset_id s)"
  let ?cs = "filter (\<lambda>indicator. indicator_type indicator = COVERAGE) ?qis"
  from assms have many: "1 < length ?cs"
    by (simp add: coverage_indicators_of_def)
  then have cs: "?cs \<noteq> []" by auto
  then have qis: "?qis \<noteq> []" by auto
  from many cs qis show ?thesis
    by (simp add: run_coverage_analysis_def Let_def)
qed

lemma run_coverage_analysis_none:
  assumes "coverage_indicators_of env s = []"
  shows "run_coverage_analysis env s = Inr s"
  using assms by (simp add: run_coverage_analysis_def coverage_indicators_of_def Let_def)

lemma run_coverage_analysis_one:
  assumes "length (coverage_indicators_of env s) = 1"
  shows "run_coverage_analysis env s =
     (case get_coverage_quality env (get_quality_indicator_configs (quality_configs env) (dataset_id s) ! 0)
             (run_on_input_geometry s) (epsg s) of
        (measurements, warning, has_coverage') \<Rightarrow>
          Inr (s\<lparr> run_algorithm := run_algorithm s @ [''check coverage''],
                  quality_measurement := quality_measurement s @ measurements,
                  has_coverage := has_coverage',
                  quality_warning := (case warning of None \<Rightarrow> quality_warning s
                                       | Some w \<Rightarrow> quality_warning s @ [w]) \<rparr>))"
proof -
  let ?qis = "get_quality_indicator_configs (quality_configs env) (dataset_id s)"
  let ?cs = "filter (\<lambda>indicator. indicator_type indicator = COVERAGE) ?qis"
  from assms have one: "length ?cs = 1"
    by (simp add: coverage_indicators_of_def)
  then have cs: "?cs \<noteq> []" by auto
  then have qis: "?qis \<noteq> []" by auto
  from one cs qis show ?thesis
    by (simp add: run_coverage_analysis_def Let_def add_run_algorithm_def split: prod.splits option.splits)
qed

lemma run_coverage_analysis_at_most_one:
  assumes "length (coverage_indicators_of env s) \<le> 1"
  shows "\<exists>s'. run_coverage_analysis env s = Inr s'"
proof (cases "coverage_indicators_of env s = []")
  case True
  then show ?thesis by (simp add: run_coverage_analysis_none)
next
  case False
  with assms have "length (coverage_indicators_of env s) = 1"
    by (cases "coverage_indicators_of env s") auto
  then show ?thesis
    by (simp add: run_coverage_analysis_one split: prod.splits)
qed

lemma coverage_indicators_of_set_input_geometry:
  "coverage_indicators_of env (set_input_geometry env s) = coverage_indicators_of env s"
  by (simp add: coverage_indicators_of_def set_input_geometry_frame)

lemma deliver_result_errors:
  "snd (deliver_result env ctx ig iq calls s) \<noteq> Inl e"
  by (simp add: deliver_result_def Let_def)

lemma distance_stage_errors:
  assumes "snd (distance_stage env hooks ctx ig iq calls s) = Inl e"
  shows "\<exists>s'. set_distance_to_object hooks s' = Inl e"
  using assms
  by (auto simp: distance_stage_def deliver_result_errors split: if_splits sum.splits)

lemma run_errors:
  assumes "snd (run env hooks ctx ig iq s) = Inl e"
  shows "run_coverage_analysis env (set_input_geometry env s) = Inl e
       \<or> (\<exists>s'. run_queries hooks s' = Inl e)
       \<or> (\<exists>s'. set_distance_to_object hooks s' = Inl e)
       \<or> e = AttributeError ''GetArea''"
  using assms
  by (auto simp: run_def Let_def set_geometry_areas_def dest: distance_stage_errors
      split: if_splits sum.splits option.splits)

lemma accumulate_hit_area_sum:
  "accumulate_hit_area env g gs hit
     = foldl (float_add env) hit (polygon_intersection_areas env g gs)"
  by (induction env g gs hit rule: accumulate_hit_area.induct)
     (auto simp: polygon_intersection_areas_def Let_def split: option.splits)

lemma set_geometry_areas_result:
  assumes "run_on_input_geometry s = Some g"
  shows "set_geometry_areas env s =
     Inr (s\<lparr> input_geometry_area := Some (round_ndigits env (GetArea env g) 2),
             hit_area := (if geometries s = [] then hit_area s
                          else Some (round_ndigits env
                                 (float_sum env (polygon_intersection_areas env g (geometries s))) 2)) \<rparr>)"
  using assms by (simp add: set_geometry_areas_def Let_def accumulate_hit_area_sum float_sum_def)

lemma deliver_result_frame:
  assumes "snd (deliver_result env ctx ig iq calls s) = Inr final"
  shows "hit_area final = hit_area s \<and> input_geometry_area final = input_geometry_area s
       \<and> result_status final = result_status s \<and> distance_to_object final = distance_to_object s"
  using assms
  by (auto simp: deliver_result_def Let_def add_run_algorithm_def set_default_data_def
      set_guidance_data_def set_quality_measurements_def split: if_splits option.splits prod.splits)

lemma deliver_result_calls:
  "set (fst (deliver_result env ctx ig iq calls s))
     \<subseteq> set calls \<union> {Call_set_default_data, Call_set_guidance_data, Call_set_quality_measurements}"
  by (auto simp: deliver_result_def Let_def split: if_splits)

lemma deliver_result_keeps_calls:
  "set calls \<subseteq> set (fst (deliver_result env ctx ig iq calls s))"
  by (auto simp: deliver_result_def Let_def split: if_splits)

lemma distance_stage_calls:
  "set (fst (distance_stage env hooks ctx ig iq calls s))
     \<subseteq> set calls \<union> {Call_set_distance_to_object, Call_set_default_data, Call_set_guidance_data,
                       Call_set_quality_measurements}"
  using deliver_result_calls [of env ctx ig iq]
  by (fastforce simp: distance_stage_def split: if_splits sum.splits)

lemma distance_stage_keeps_calls:
  "set calls \<subseteq> set (fst (distance_stage env hooks ctx ig iq calls s))"
  using deliver_result_keeps_calls [of _ env ctx ig iq]
  by (fastforce simp: distance_stage_def split: if_splits sum.splits)

lemma distance_stage_frame:
  assumes "snd (distance_stage env hooks ctx ig iq calls s) = Inr final"
    and "\<And>a b. set_distance_to_object hooks a = Inr b \<Longrightarrow> P b = P a"
    and "\<And>a b c. snd (deliver_result env ctx ig iq c a) = Inr b \<Longrightarrow> P b = P a"
  shows "P final = P s"
  using assms
  by (auto simp: distance_stage_def split: if_splits sum.splits)

lemma run_covered:
  assumes "run_coverage_analysis env (set_input_geometry env self) = Inr s2"
    and "has_coverage s2"
    and "run_queries hooks s2 = Inr s3"
    and "result_status s3 \<noteq> TIMEOUT" "result_status s3 \<noteq> ERROR"
    and "set_geometry_areas env s3 = Inr s4"
  shows "run env hooks ctx ig iq self
     = distance_stage env hooks ctx ig iq
         [Call_set_input_geometry, Call_run_coverage_analysis, Call_run_queries, Call_set_geometry_areas] s4"
  using assms by (simp add: run_def)

lemma run_not_covered:
  assumes "run_coverage_analysis env (set_input_geometry env self) = Inr s2"
    and "\<not> has_coverage s2"
  shows "run env hooks ctx ig iq self
     = distance_stage env hooks ctx ig iq
         [Call_set_input_geometry, Call_run_coverage_analysis] (s2\<lparr> result_status := NO_HIT_YELLOW \<rparr>)"
  using assms by (simp add: run_def)

lemma distance_stage_no_hit:
  assumes "result_status s = NO_HIT_GREEN \<or> result_status s = NO_HIT_YELLOW"
    and "set_distance_to_object hooks s = Inr s'"
  shows "distance_stage env hooks ctx ig iq calls s
     = deliver_result env ctx ig iq (calls @ [Call_set_distance_to_object]) s'"
  using assms by (auto simp: distance_stage_def)

lemma distance_stage_hit:
  assumes "result_status s \<noteq> NO_HIT_GREEN" "result_status s \<noteq> NO_HIT_YELLOW"
  shows "distance_stage env hooks ctx ig iq calls s = deliver_result env ctx ig iq calls s"
  using assms by (simp add: distance_stage_def)

lemma deliver_result_plain:
  "deliver_result env ctx False False calls s
     = (calls @ [Call_set_default_data],
        Inr (set_default_data env
               ((add_run_algorithm ''deliver result'' s)
                  \<lparr> run_on_input_geometry_json :=
                      Some (create_run_on_input_geometry_json env (run_on_input_geometry s) (epsg s) (orig_epsg s)) \<rparr>)))"
  by (simp add: deliver_result_def Let_def add_run_algorithm_def split: option.splits)

lemma run_coverage_analysis_frame:
  assumes "run_coverage_analysis env s = Inr s'"
  shows "dataset_id s' = dataset_id s" "config s' = config s" "epsg s' = epsg s"
    "geometry s' = geometry s" "run_on_input_geometry s' = run_on_input_geometry s"
    "hit_area s' = hit_area s" "input_geometry_area s' = input_geometry_area s"
    "distance_to_object s' = distance_to_object s" "result_status s' = result_status s"
    "geolett s' = geolett s" "geometries s' = geometries s"
  using assms
  by (auto simp: run_coverage_analysis_def Let_def add_run_algorithm_def split: if_splits prod.splits)




lemma run_queries_lookup_fails:
  assumes "layers (config s) = layer # rest"
    and "get_geolett_data env (geolett_id layer) = Inl e"
  shows "OgcApiAnalysis__run_queries env s = Inl e"
  using assms by (simp add: OgcApiAnalysis__run_queries_def)


lemma get_geolett_data_fetch_failed:
  assumes "fetch_geolett_data env = None" and "\<not> id_in env i LOCAL_GEOLETT_IDS"
  shows "get_geolett_data env (Some i) = Inl (TypeError ''NoneType object is not iterable'')"
  using assms by (simp add: get_geolett_data_def)

lemma run_query_failed:
  assumes "run_coverage_analysis env (set_input_geometry env self) = Inr s2"
    and "has_coverage s2"
    and "run_queries hooks s2 = Inr s3"
    and "result_status s3 = TIMEOUT \<or> result_status s3 = ERROR"
  shows "run env hooks ctx ig iq self
     = ([Call_set_input_geometry, Call_run_coverage_analysis, Call_run_queries, Call_set_default_data],
        Inr (set_default_data env s3))"
  using assms by (auto simp: run_def)

lemma run_coverage_analysis_unconfigured:
  assumes "quality_configs env = []"
  shows "run_coverage_analysis env s = Inr s"
  using assms by (simp add: run_coverage_analysis_def get_quality_indicator_configs_def)

lemma coverage_stage_has_coverage:
  assumes "length (coverage_indicators_of env self) = 1"
    and "get_quality_indicator_configs (quality_configs env) (dataset_id self) ! 0 = c"
  shows "\<exists>s2. run_coverage_analysis env (set_input_geometry env self) = Inr s2
       \<and> has_coverage s2 = (coverage_source_values env c self \<noteq> []
                              \<and> has_coverage_values (coverage_source_values env c self))
       \<and> hit_area s2 = hit_area self"
proof -
  let ?s1 = "set_input_geometry env self"
  obtain vs pct where v: "get_values_from_web_service env c (run_on_input_geometry ?s1) (epsg self) = (vs, pct)"
    by (cases "get_values_from_web_service env c (run_on_input_geometry ?s1) (epsg self)")
  then have vs: "coverage_source_values env c self = vs"
    by (simp add: coverage_source_values_def)
  obtain m w h where cq: "get_coverage_quality env c (run_on_input_geometry ?s1) (epsg self) = (m, w, h)"
    by (cases "get_coverage_quality env c (run_on_input_geometry ?s1) (epsg self)")
  from get_coverage_quality_has_coverage [OF v] cq have h: "h = (vs \<noteq> [] \<and> has_coverage_values vs)"
    by simp
  from assms(1) have "length (coverage_indicators_of env ?s1) = 1"
    by (simp add: coverage_indicators_of_set_input_geometry)
  from run_coverage_analysis_one [OF this] cq h vs assms(2) show ?thesis
    by (simp add: set_input_geometry_frame)
qed

lemma run_covered_calls:
  assumes "run_coverage_analysis env (set_input_geometry env self) = Inr s2"
    and "has_coverage s2"
  shows "Call_run_queries \<in> set (fst (run env hooks ctx ig iq self))"
proof -
  have "Call_run_queries \<in> set (fst (distance_stage env hooks ctx ig iq
      [Call_set_input_geometry, Call_run_coverage_analysis, Call_run_queries, Call_set_geometry_areas] s))" for s
    using distance_stage_keeps_calls
      [of "[Call_set_input_geometry, Call_run_coverage_analysis, Call_run_queries, Call_set_geometry_areas]"
        env hooks ctx ig iq s]
    by auto
  with assms show ?thesis
    by (auto simp: run_def split: sum.splits)
qed

lemma set_distance_no_response:
  assumes "layers (config s) = layer # rest"
    and "query_ogc_api env (ogc_api (config s)) (layer_ogc_api layer) (geom_field (config s))
           (Some (create_buffered_geometry env (geometry s) 20000 (epsg s))) (epsg s) = (status_code, None)"
  shows "OgcApiAnalysis__set_distance_to_object env s = Inr (s\<lparr> distance_to_object := maxsize \<rparr>)"
  using assms by (simp add: OgcApiAnalysis__set_distance_to_object_def)

lemma set_distance_response:
  assumes "layers (config s) = layer # rest"
    and "query_ogc_api env (ogc_api (config s)) (layer_ogc_api layer) (geom_field (config s))
           (Some (create_buffered_geometry env (geometry s) 20000 (epsg s))) (epsg s) = (status_code, Some features)"
  shows "OgcApiAnalysis__set_distance_to_object env s
     = (case feature_distances env (run_on_input_geometry s) features of
          Inl e \<Rightarrow> Inl e
        | Inr distances \<Rightarrow> Inl (AttributeError ''_add_run_algorithm''))"
  using assms
  by (simp add: OgcApiAnalysis__set_distance_to_object_def call_add_run_algorithm_fails Let_def
      split: sum.splits)

lemma set_distance_only_maxsize:
  assumes "OgcApiAnalysis__set_distance_to_object env s = Inr s'"
  shows "distance_to_object s' = maxsize"
  using assms
  by (auto simp: OgcApiAnalysis__set_distance_to_object_def call_add_run_algorithm_fails Let_def
      split: list.splits prod.splits option.splits sum.splits)

section \<open>Evaluation at the concrete inputs\<close>

lemma two_cov: "coverage_indicators_of two_coverage_env fresh_analysis = [coverage_indicator, coverage_indicator]"
  by (simp add: coverage_indicators_of_def two_coverage_env_def plain_env_def fresh_analysis_def
      Analysis_init_def get_quality_indicator_configs_def coverage_indicator_def)

lemma plain_cov: "coverage_indicators_of plain_env fresh_analysis = []"
  by (simp add: coverage_indicators_of_def plain_env_def fresh_analysis_def
      Analysis_init_def get_quality_indicator_configs_def)

lemma fresh_input_geometry:
  "set_input_geometry plain_env fresh_analysis
     = fresh_analysis\<lparr> run_algorithm := [''set input_geometry''], run_on_input_geometry := Some 7 \<rparr>"
  by (simp add: set_input_geometry_def add_run_algorithm_def Let_def plain_env_def fresh_analysis_def
      Analysis_init_def)

lemma fresh_coverage:
  "run_coverage_analysis plain_env (set_input_geometry plain_env fresh_analysis)
     = Inr (set_input_geometry plain_env fresh_analysis)"
  by (simp add: run_coverage_analysis_none coverage_indicators_of_set_input_geometry plain_cov)

lemma fresh_has_coverage: "has_coverage (set_input_geometry plain_env fresh_analysis)"
  by (simp add: set_input_geometry_frame fresh_analysis_def Analysis_init_def)

lemma exact_round_ndigits_int: "exact_round_ndigits (of_int n) 2 = of_int n"
  by (simp add: exact_round_ndigits_def py_round_def Let_def)

lemma not_mapped_values:
  "coverage_source_values not_mapped_env coverage_indicator fresh_analysis = [''ikkeKartlagt'']"
  by (simp add: coverage_source_values_def not_mapped_env_def plain_env_def
      get_values_from_web_service_def coverage_indicator_def)

lemma not_relevant_values:
  "coverage_source_values not_relevant_env coverage_indicator fresh_analysis = [''ikkeRelevant'']"
  by (simp add: coverage_source_values_def not_relevant_env_def plain_env_def
      get_values_from_web_service_def coverage_indicator_def)

lemma not_mapped_first:
  "get_quality_indicator_configs (quality_configs not_mapped_env) (dataset_id fresh_analysis) ! 0
     = coverage_indicator"
  by (simp add: not_mapped_env_def plain_env_def get_quality_indicator_configs_def)

lemma not_relevant_first:
  "get_quality_indicator_configs (quality_configs not_relevant_env) (dataset_id fresh_analysis) ! 0
     = coverage_indicator"
  by (simp add: not_relevant_env_def plain_env_def get_quality_indicator_configs_def)

lemma not_mapped_one: "coverage_indicators_of not_mapped_env fresh_analysis = [coverage_indicator]"
  by (simp add: coverage_indicators_of_def not_mapped_env_def plain_env_def fresh_analysis_def
      Analysis_init_def get_quality_indicator_configs_def coverage_indicator_def)

lemma not_relevant_one: "coverage_indicators_of not_relevant_env fresh_analysis = [coverage_indicator]"
  by (simp add: coverage_indicators_of_def not_relevant_env_def plain_env_def fresh_analysis_def
      Analysis_init_def get_quality_indicator_configs_def coverage_indicator_def)

lemma no_record_frame:
  "set_distance_to_object no_record_hooks a = Inr b
     \<Longrightarrow> result_status b = result_status a \<and> hit_area b = hit_area a"
  by (auto simp: no_record_hooks_def)

section \<open>Claims\<close>

text \<open>
  C1 (as amended). For an analysis whose dataset has exactly one coverage indicator, that
  indicator being the first of the dataset's quality indicators, and whose distance method
  leaves status and hitArea alone: if the coverage-value source returns for it the single
  value \<^verbatim>\<open>ikkeKartlagt\<close>, the query stage is never called and the run ends with status
  NO\_HIT\_YELLOW and hitArea unset (or with the distance method's exception); if it
  returns the single value \<^verbatim>\<open>ikkeRelevant\<close>, coverage is adequate and the query stage is
  called.
\<close>

theorem C1_not_mapped_no_query:
  assumes one: "coverage_indicators_of env self = [c]"
    and first: "get_quality_indicator_configs (quality_configs env) (dataset_id self) ! 0 = c"
    and unset: "hit_area self = None"
    and frame: "\<And>a b. set_distance_to_object hooks a = Inr b
                  \<Longrightarrow> result_status b = result_status a \<and> hit_area b = hit_area a"
  shows "(coverage_source_values env c self = [''ikkeKartlagt''] \<longrightarrow>
            Call_run_queries \<notin> set (fst (run env hooks ctx ig iq self))
            \<and> (case snd (run env hooks ctx ig iq self) of
                 Inr final \<Rightarrow> result_status final = NO_HIT_YELLOW \<and> hit_area final = None
               | Inl e \<Rightarrow> \<exists>a. set_distance_to_object hooks a = Inl e))
       \<and> (coverage_source_values env c self = [''ikkeRelevant''] \<longrightarrow>
            Call_run_queries \<in> set (fst (run env hooks ctx ig iq self)))"
proof (intro conjI impI)
  from one have len: "length (coverage_indicators_of env self) = 1" by simp
  assume v: "coverage_source_values env c self = [''ikkeKartlagt'']"
  from coverage_stage_has_coverage [OF len first] v unset obtain s2 where
    cov: "run_coverage_analysis env (set_input_geometry env self) = Inr s2"
    and hc: "\<not> has_coverage s2" and h2: "hit_area s2 = None"
    by (auto simp: has_coverage_values_def)
  define s3 where "s3 = s2\<lparr> result_status := NO_HIT_YELLOW \<rparr>"
  define calls where "calls = [Call_set_input_geometry, Call_run_coverage_analysis]"
  have f3: "result_status s3 = NO_HIT_YELLOW" "hit_area s3 = None"
    by (simp_all add: s3_def h2)
  have r: "run env hooks ctx ig iq self = distance_stage env hooks ctx ig iq calls s3"
    unfolding s3_def calls_def using cov hc by (rule run_not_covered)
  show "Call_run_queries \<notin> set (fst (run env hooks ctx ig iq self))"
    using distance_stage_calls [of env hooks ctx ig iq calls s3] by (auto simp: r calls_def)
  show "case snd (run env hooks ctx ig iq self) of
                 Inr final \<Rightarrow> result_status final = NO_HIT_YELLOW \<and> hit_area final = None
               | Inl e \<Rightarrow> \<exists>a. set_distance_to_object hooks a = Inl e"
  proof (cases "snd (distance_stage env hooks ctx ig iq calls s3)")
    case (Inl e)
    then have "\<exists>a. set_distance_to_object hooks a = Inl e"
      by (rule distance_stage_errors)
    with Inl show ?thesis by (simp add: r)
  next
    case (Inr final)
    have "result_status final = result_status s3"
    proof (rule distance_stage_frame [where P = result_status, OF Inr])
      show "\<And>a b. set_distance_to_object hooks a = Inr b \<Longrightarrow> result_status b = result_status a"
        using frame by blast
      show "\<And>a b c. snd (deliver_result env ctx ig iq c a) = Inr b \<Longrightarrow> result_status b = result_status a"
        using deliver_result_frame by blast
    qed
    moreover have "hit_area final = hit_area s3"
    proof (rule distance_stage_frame [where P = hit_area, OF Inr])
      show "\<And>a b. set_distance_to_object hooks a = Inr b \<Longrightarrow> hit_area b = hit_area a"
        using frame by blast
      show "\<And>a b c. snd (deliver_result env ctx ig iq c a) = Inr b \<Longrightarrow> hit_area b = hit_area a"
        using deliver_result_frame by blast
    qed
    ultimately show ?thesis using Inr f3 by (simp add: r)
  qed
next
  from one have len: "length (coverage_indicators_of env self) = 1" by simp
  assume v: "coverage_source_values env c self = [''ikkeRelevant'']"
  from coverage_stage_has_coverage [OF len first] v obtain s2 where
    cov: "run_coverage_analysis env (set_input_geometry env self) = Inr s2"
    and hc: "has_coverage s2"
    by (auto simp: has_coverage_values_def)
  then show "Call_run_queries \<in> set (fst (run env hooks ctx ig iq self))"
    by (rule run_covered_calls)
qed

theorem C1_not_mapped_no_query_witness:
  "coverage_indicators_of not_mapped_env fresh_analysis = [coverage_indicator]
   \<and> coverage_source_values not_mapped_env coverage_indicator fresh_analysis = [''ikkeKartlagt'']
   \<and> Call_run_queries \<notin> set (fst (run not_mapped_env no_record_hooks ''ctx'' True True fresh_analysis))
   \<and> map_sum id result_status (snd (run not_mapped_env no_record_hooks ''ctx'' True True fresh_analysis))
        = Inr NO_HIT_YELLOW
   \<and> map_sum id hit_area (snd (run not_mapped_env no_record_hooks ''ctx'' True True fresh_analysis))
        = Inr None
   \<and> coverage_source_values not_relevant_env coverage_indicator fresh_analysis = [''ikkeRelevant'']
   \<and> Call_run_queries \<in> set (fst (run not_relevant_env no_record_hooks ''ctx'' True True fresh_analysis))"
proof -
  have unset: "hit_area fresh_analysis = None"
    by (simp add: fresh_analysis_def Analysis_init_def)
  have no_error: "(\<exists>a. set_distance_to_object no_record_hooks a = Inl e) = False" for e
    by (simp add: no_record_hooks_def)
  from C1_not_mapped_no_query [where hooks = no_record_hooks and ctx = "''ctx''" and ig = True and iq = True,
        OF not_mapped_one not_mapped_first unset no_record_frame]
    C1_not_mapped_no_query [where hooks = no_record_hooks and ctx = "''ctx''" and ig = True and iq = True,
        OF not_relevant_one not_relevant_first unset no_record_frame]
  show ?thesis
    by (cases "snd (run not_mapped_env no_record_hooks ''ctx'' True True fresh_analysis)")
       (simp_all add: not_mapped_values not_relevant_values no_error not_mapped_one)
qed

text \<open>
  C1 as stated fails: with one coverage indicator, first among the indicators, and the
  single value \<^verbatim>\<open>ikkeRelevant\<close> the query stage is called, and with a query that finds
  nothing the run ends with status NO\_HIT\_GREEN.
\<close>

theorem C1_counterexample:
  "coverage_indicators_of not_relevant_env fresh_analysis = [coverage_indicator]
   \<and> get_quality_indicator_configs (quality_configs not_relevant_env) (dataset_id fresh_analysis) ! 0
        = coverage_indicator
   \<and> coverage_source_values not_relevant_env coverage_indicator fresh_analysis = [''ikkeRelevant'']
   \<and> Call_run_queries \<in> set (fst (run not_relevant_env no_record_hooks ''ctx'' False False fresh_analysis))
   \<and> map_sum id result_status (snd (run not_relevant_env no_record_hooks ''ctx'' False False fresh_analysis))
        = Inr NO_HIT_GREEN"
proof -
  have len: "length (coverage_indicators_of not_relevant_env fresh_analysis) = 1"
    by (simp add: not_relevant_one)
  from coverage_stage_has_coverage [OF len not_relevant_first] obtain s2 where
    cov: "run_coverage_analysis not_relevant_env (set_input_geometry not_relevant_env fresh_analysis) = Inr s2"
    and hc: "has_coverage s2"
    by (auto simp: not_relevant_values has_coverage_values_def)
  have f2: "result_status s2 = NO_HIT_GREEN" "run_on_input_geometry s2 = Some 7"
    using run_coverage_analysis_frame [OF cov]
    by (simp_all add: set_input_geometry_frame set_input_geometry_working fresh_analysis_def
        Analysis_init_def not_relevant_env_def plain_env_def)
  have q: "run_queries no_record_hooks s2 = Inr s2"
    by (simp add: no_record_hooks_def)
  define s4 where "s4 = s2\<lparr> input_geometry_area := Some (round_ndigits not_relevant_env (GetArea not_relevant_env 7) 2),
             hit_area := (if geometries s2 = [] then hit_area s2
                          else Some (round_ndigits not_relevant_env
                                 (float_sum not_relevant_env
                                    (polygon_intersection_areas not_relevant_env 7 (geometries s2))) 2)) \<rparr>"
  have areas: "set_geometry_areas not_relevant_env s2 = Inr s4"
    unfolding s4_def using f2(2) by (rule set_geometry_areas_result)
  have st4: "result_status s4 = NO_HIT_GREEN"
    by (simp add: s4_def f2)
  have d: "set_distance_to_object no_record_hooks s4 = Inr (s4\<lparr> distance_to_object := maxsize \<rparr>)"
    by (simp add: no_record_hooks_def)
  have r: "run not_relevant_env no_record_hooks ''ctx'' False False fresh_analysis
      = deliver_result not_relevant_env ''ctx'' False False
          ([Call_set_input_geometry, Call_run_coverage_analysis, Call_run_queries, Call_set_geometry_areas]
             @ [Call_set_distance_to_object])
          (s4\<lparr> distance_to_object := maxsize \<rparr>)"
    using f2 by (simp add: run_covered [OF cov hc q _ _ areas] distance_stage_no_hit [OF _ d] st4)
  have "Call_run_queries \<in> set (fst (run not_relevant_env no_record_hooks ''ctx'' False False fresh_analysis))"
    using cov hc by (rule run_covered_calls)
  moreover have "map_sum id result_status
       (snd (run not_relevant_env no_record_hooks ''ctx'' False False fresh_analysis)) = Inr NO_HIT_GREEN"
    by (simp add: r deliver_result_plain set_default_data_def add_run_algorithm_def st4)
  ultimately show ?thesis
    using not_relevant_one not_relevant_values not_relevant_first by simp
qed

text \<open>
  C2. With the coverage indicator second among the dataset's indicators, the coverage stage
  hands the first indicator, of another kind, to the coverage evaluator: the result is that
  indicator's (no measurement, no coverage), not the coverage indicator's (one measurement,
  coverage). With the coverage indicator first the stage uses it.
\<close>

theorem C2_first_indicator_is_used:
  "get_quality_indicator_configs (quality_configs coverage_second_env) (dataset_id fresh_analysis)
     = [object_indicator, coverage_indicator]
   \<and> coverage_indicators_of coverage_second_env fresh_analysis = [coverage_indicator]
   \<and> get_coverage_quality coverage_second_env coverage_indicator (Some 7) 25833
       = ([\<lparr> quality_dimension_id = ''fullstendighet_dekning'', quality_dimension_name = ''Fullstendighet'',
             qm_value = ''Ja'', qm_comment = None \<rparr>], None, True)
   \<and> get_coverage_quality coverage_second_env object_indicator (Some 7) 25833 = ([], None, False)
   \<and> run_coverage_analysis coverage_second_env (set_input_geometry coverage_second_env fresh_analysis)
       = Inr ((set_input_geometry coverage_second_env fresh_analysis)
               \<lparr> run_algorithm := [''set input_geometry'', ''check coverage''], has_coverage := False \<rparr>)
   \<and> run_coverage_analysis coverage_first_env (set_input_geometry coverage_first_env fresh_analysis)
       = Inr ((set_input_geometry coverage_first_env fresh_analysis)
               \<lparr> run_algorithm := [''set input_geometry'', ''check coverage''],
                 quality_measurement := [\<lparr> quality_dimension_id = ''fullstendighet_dekning'',
                    quality_dimension_name = ''Fullstendighet'', qm_value = ''Ja'', qm_comment = None \<rparr>],
                 has_coverage := True \<rparr>)"
  apply (intro conjI)
  apply (simp add: coverage_second_env_def plain_env_def fresh_analysis_def
      Analysis_init_def get_quality_indicator_configs_def)
  apply (simp add: coverage_indicators_of_def coverage_second_env_def plain_env_def fresh_analysis_def
      Analysis_init_def get_quality_indicator_configs_def coverage_indicator_def object_indicator_def)
  apply (simp add: get_coverage_quality_def get_coverage_quality_data_def get_values_from_web_service_def
      coverage_second_env_def plain_env_def coverage_indicator_def get_label_from_codelist_def
      get_warning_text_def should_warn_def py_any_str_def has_coverage_values_def)
  apply (simp add: get_coverage_quality_def get_coverage_quality_data_def get_values_from_web_service_def
      coverage_second_env_def plain_env_def object_indicator_def)
  apply (simp add: run_coverage_analysis_def set_input_geometry_def add_run_algorithm_def Let_def
      get_coverage_quality_def get_coverage_quality_data_def get_values_from_web_service_def
      coverage_second_env_def plain_env_def fresh_analysis_def Analysis_init_def
      get_quality_indicator_configs_def coverage_indicator_def object_indicator_def)
  apply (simp add: run_coverage_analysis_def set_input_geometry_def add_run_algorithm_def Let_def
      get_coverage_quality_def get_coverage_quality_data_def get_values_from_web_service_def
      coverage_first_env_def plain_env_def fresh_analysis_def Analysis_init_def
      get_quality_indicator_configs_def coverage_indicator_def object_indicator_def
      get_label_from_codelist_def get_warning_text_def should_warn_def py_any_str_def has_coverage_values_def)
  done

text \<open>
  C3. With more than one COVERAGE-kind indicator configured for the dataset, \<^verbatim>\<open>run\<close>
  raises the \<^verbatim>\<open>DokAnalysisException\<close> of the coverage stage, and the methods called up
  to then are the geometry and the coverage stage only, never the query stage. With none or
  one, the coverage stage raises nothing, and an exception of \<^verbatim>\<open>run\<close> can then only come
  from one of the two overridden methods or from the area stage.
\<close>

theorem C3_one_coverage_indicator:
  "(1 < length (coverage_indicators_of env self) \<longrightarrow>
      run env hooks ctx ig iq self
        = ([Call_set_input_geometry, Call_run_coverage_analysis],
           Inl (DokAnalysisException ''A dataset can only have one coverage quality indicator''))
      \<and> Call_run_queries \<notin> set (fst (run env hooks ctx ig iq self)))
   \<and> (length (coverage_indicators_of env self) \<le> 1 \<longrightarrow>
        (\<exists>self'. run_coverage_analysis env (set_input_geometry env self) = Inr self')
        \<and> (\<forall>e. snd (run env hooks ctx ig iq self) = Inl e \<longrightarrow>
              (\<exists>s'. run_queries hooks s' = Inl e)
              \<or> (\<exists>s'. set_distance_to_object hooks s' = Inl e)
              \<or> e = AttributeError ''GetArea''))"
proof (intro conjI impI)
  assume many: "1 < length (coverage_indicators_of env self)"
  then have "run_coverage_analysis env (set_input_geometry env self)
      = Inl (DokAnalysisException ''A dataset can only have one coverage quality indicator'')"
    by (simp add: run_coverage_analysis_many coverage_indicators_of_set_input_geometry)
  then show r: "run env hooks ctx ig iq self
        = ([Call_set_input_geometry, Call_run_coverage_analysis],
           Inl (DokAnalysisException ''A dataset can only have one coverage quality indicator''))"
    by (simp add: run_def)
  show "Call_run_queries \<notin> set (fst (run env hooks ctx ig iq self))"
    by (simp add: r)
next
  assume few: "length (coverage_indicators_of env self) \<le> 1"
  then show ok: "\<exists>self'. run_coverage_analysis env (set_input_geometry env self) = Inr self'"
    by (simp add: run_coverage_analysis_at_most_one coverage_indicators_of_set_input_geometry)
  show "\<forall>e. snd (run env hooks ctx ig iq self) = Inl e \<longrightarrow>
              (\<exists>s'. run_queries hooks s' = Inl e)
              \<or> (\<exists>s'. set_distance_to_object hooks s' = Inl e)
              \<or> e = AttributeError ''GetArea''"
  proof (intro allI impI)
    fix e
    assume "snd (run env hooks ctx ig iq self) = Inl e"
    from run_errors [OF this] ok show "(\<exists>s'. run_queries hooks s' = Inl e)
              \<or> (\<exists>s'. set_distance_to_object hooks s' = Inl e)
              \<or> e = AttributeError ''GetArea''"
      by auto
  qed
qed

theorem C3_one_coverage_indicator_witness:
  "1 < length (coverage_indicators_of two_coverage_env fresh_analysis)
   \<and> run two_coverage_env no_record_hooks ''ctx'' True True fresh_analysis
        = ([Call_set_input_geometry, Call_run_coverage_analysis],
           Inl (DokAnalysisException ''A dataset can only have one coverage quality indicator''))
   \<and> length (coverage_indicators_of plain_env fresh_analysis) \<le> 1
   \<and> (\<exists>self'. run_coverage_analysis plain_env (set_input_geometry plain_env fresh_analysis) = Inr self')"
  using C3_one_coverage_indicator [of two_coverage_env fresh_analysis no_record_hooks "''ctx''" True True]
    C3_one_coverage_indicator [of plain_env fresh_analysis no_record_hooks "''ctx''" True True]
  by (simp add: two_cov plain_cov)


text \<open>
  C5. For every list of coverage values returned by the coverage-value source: an empty
  list gives no measurements, no warning and hasCoverage = false; a list whose only value is
  \<^verbatim>\<open>ikkeKartlagt\<close> gives hasCoverage = false; a list with \<^verbatim>\<open>ikkeKartlagt\<close> and at
  least one other, non-sentinel value gives hasCoverage = true; every other non-empty list
  gives hasCoverage = true.
\<close>

theorem C5_has_coverage_cases:
  assumes "get_values_from_web_service env qi g ep = (values, pct)"
  shows "(values = [] \<longrightarrow> get_coverage_quality env qi g ep = ([], None, False))
       \<and> (values \<noteq> [] \<and> set values = {''ikkeKartlagt''}
            \<longrightarrow> snd (snd (get_coverage_quality env qi g ep)) = False)
       \<and> (''ikkeKartlagt'' \<in> set values
             \<and> (\<exists>v \<in> set values. v \<noteq> ''ikkeKartlagt'' \<and> v \<noteq> ''ikkeRelevant'')
            \<longrightarrow> snd (snd (get_coverage_quality env qi g ep)) = True)
       \<and> (values \<noteq> [] \<and> set values \<noteq> {''ikkeKartlagt''}
            \<longrightarrow> snd (snd (get_coverage_quality env qi g ep)) = True)"
proof -
  have hc: "snd (snd (get_coverage_quality env qi g ep)) = (values \<noteq> [] \<and> has_coverage_values values)"
    using assms by (rule get_coverage_quality_has_coverage)
  have empty: "values = [] \<longrightarrow> get_coverage_quality env qi g ep = ([], None, False)"
    using assms get_coverage_quality_empty by blast
  have only: "values \<noteq> [] \<and> set values = {''ikkeKartlagt''}
       \<longrightarrow> snd (snd (get_coverage_quality env qi g ep)) = False"
    by (simp add: hc has_coverage_values_iff)
  have partial: "''ikkeKartlagt'' \<in> set values
        \<and> (\<exists>v \<in> set values. v \<noteq> ''ikkeKartlagt'' \<and> v \<noteq> ''ikkeRelevant'')
       \<longrightarrow> snd (snd (get_coverage_quality env qi g ep)) = True"
    by (auto simp: hc has_coverage_values_iff)
  have other: "values \<noteq> [] \<and> set values \<noteq> {''ikkeKartlagt''}
       \<longrightarrow> snd (snd (get_coverage_quality env qi g ep)) = True"
  proof
    assume a: "values \<noteq> [] \<and> set values \<noteq> {''ikkeKartlagt''}"
    then obtain v where "v \<in> set values" by (cases "values") auto
    with a have "\<not> (''ikkeKartlagt'' \<in> set values \<and> set values \<subseteq> {''ikkeKartlagt''})"
      by auto
    with a show "snd (snd (get_coverage_quality env qi g ep)) = True"
      by (simp add: hc has_coverage_values_iff)
  qed
  from empty only partial other show ?thesis by blast
qed

theorem C5_has_coverage_cases_witness:
  "get_values_from_web_service partly_mapped_source coverage_indicator (Some 1) 25833
     = ([''ikkeKartlagt'', ''kartlagt''], 50)
   \<and> snd (snd (get_coverage_quality partly_mapped_source coverage_indicator (Some 1) 25833)) = True"
proof -
  have src: "get_values_from_web_service partly_mapped_source coverage_indicator (Some 1) 25833
     = ([''ikkeKartlagt'', ''kartlagt''], 50)"
    by (simp add: get_values_from_web_service_def partly_mapped_source_def coverage_indicator_def)
  from C5_has_coverage_cases [OF src] src show ?thesis by simp
qed

text \<open>
  C6. The returned coverage value is the empty string and the empty string is one of the
  indicator's threshold values, yet no warning is produced: \<^verbatim>\<open>any\<close> tests the truth
  value of the matching strings, and the empty string is false.
\<close>

theorem C6_empty_value_no_warning:
  "[] \<in> set (get_threshold_values empty_threshold_source coverage_indicator)
   \<and> (\<exists>v \<in> set [[]]. v \<in> set (get_threshold_values empty_threshold_source coverage_indicator))
   \<and> get_warning_text empty_threshold_source coverage_indicator [[]] 50 = None
   \<and> get_coverage_quality empty_threshold_source coverage_indicator (Some 7) 25833
       = ([\<lparr> quality_dimension_id = ''fullstendighet_dekning'', quality_dimension_name = ''Fullstendighet'',
             qm_value = ''Ja'', qm_comment = None \<rparr>], None, True)"
  by (simp add: get_warning_text_cases empty_threshold_source_def get_coverage_quality_def
      get_coverage_quality_data_def get_values_from_web_service_def coverage_indicator_def
      get_label_from_codelist_def has_coverage_values_def)

text \<open>
  C7 (as amended). When the query stage completes without TIMEOUT or ERROR, the area stage
  is called; inputGeometryArea is the area of the working geometry rounded to 2 decimals;
  and, when the list of result geometries is not empty, hitArea is the float sum, in the
  order of the result geometries, of the areas of the polygon and multi-polygon
  intersections of the working geometry with the result geometries that are present (other
  intersections add nothing), rounded to 2 decimals once. When the list is empty hitArea is
  left as it was (unset on a fresh analysis). The distance method is assumed to leave both
  areas alone; an exception of the run can then only be the distance method's.
\<close>

theorem C7_geometry_areas:
  assumes cov: "run_coverage_analysis env (set_input_geometry env self) = Inr s2"
    and hc: "has_coverage s2"
    and q: "run_queries hooks s2 = Inr s3"
    and st: "result_status s3 \<noteq> TIMEOUT" "result_status s3 \<noteq> ERROR"
    and g: "run_on_input_geometry s3 = Some g"
    and frame: "\<And>a b. set_distance_to_object hooks a = Inr b
                  \<Longrightarrow> hit_area b = hit_area a \<and> input_geometry_area b = input_geometry_area a"
  shows "Call_set_geometry_areas \<in> set (fst (run env hooks ctx ig iq self))
       \<and> (case snd (run env hooks ctx ig iq self) of
            Inr final \<Rightarrow>
              input_geometry_area final = Some (round_ndigits env (GetArea env g) 2)
              \<and> hit_area final =
                  (if geometries s3 = [] then hit_area s3
                   else Some (round_ndigits env
                          (float_sum env (polygon_intersection_areas env g (geometries s3))) 2))
          | Inl e \<Rightarrow> \<exists>a. set_distance_to_object hooks a = Inl e)"
proof -
  define s4 where "s4 = s3\<lparr> input_geometry_area := Some (round_ndigits env (GetArea env g) 2),
             hit_area := (if geometries s3 = [] then hit_area s3
                          else Some (round_ndigits env
                                 (float_sum env (polygon_intersection_areas env g (geometries s3))) 2)) \<rparr>"
  define calls where "calls = [Call_set_input_geometry, Call_run_coverage_analysis, Call_run_queries,
                               Call_set_geometry_areas]"
  have areas: "set_geometry_areas env s3 = Inr s4"
    unfolding s4_def using g by (rule set_geometry_areas_result)
  have fields: "input_geometry_area s4 = Some (round_ndigits env (GetArea env g) 2)"
    "hit_area s4 = (if geometries s3 = [] then hit_area s3
                    else Some (round_ndigits env
                           (float_sum env (polygon_intersection_areas env g (geometries s3))) 2))"
    by (simp_all add: s4_def)
  have r: "run env hooks ctx ig iq self = distance_stage env hooks ctx ig iq calls s4"
    using cov hc q st areas by (simp add: run_def calls_def)
  have c: "Call_set_geometry_areas \<in> set (fst (run env hooks ctx ig iq self))"
    using distance_stage_keeps_calls [of calls env hooks ctx ig iq s4] by (auto simp: r calls_def)
  show ?thesis
  proof (cases "snd (distance_stage env hooks ctx ig iq calls s4)")
    case (Inl e)
    then have "\<exists>a. set_distance_to_object hooks a = Inl e"
      by (rule distance_stage_errors)
    with c Inl show ?thesis by (simp add: r)
  next
    case (Inr final)
    have "input_geometry_area final = input_geometry_area s4"
    proof (rule distance_stage_frame [where P = input_geometry_area, OF Inr])
      show "\<And>a b. set_distance_to_object hooks a = Inr b \<Longrightarrow> input_geometry_area b = input_geometry_area a"
        using frame by blast
      show "\<And>a b c. snd (deliver_result env ctx ig iq c a) = Inr b \<Longrightarrow> input_geometry_area b = input_geometry_area a"
        using deliver_result_frame by blast
    qed
    moreover have "hit_area final = hit_area s4"
    proof (rule distance_stage_frame [where P = hit_area, OF Inr])
      show "\<And>a b. set_distance_to_object hooks a = Inr b \<Longrightarrow> hit_area b = hit_area a"
        using frame by blast
      show "\<And>a b c. snd (deliver_result env ctx ig iq c a) = Inr b \<Longrightarrow> hit_area b = hit_area a"
        using deliver_result_frame by blast
    qed
    ultimately show ?thesis using c Inr fields by (simp add: r)
  qed
qed

theorem C7_geometry_areas_witness:
  "Call_set_geometry_areas \<in> set (fst (run plain_env one_record_hooks ''ctx'' False False fresh_analysis))
   \<and> map_sum id input_geometry_area (snd (run plain_env one_record_hooks ''ctx'' False False fresh_analysis))
        = Inr (Some 7)
   \<and> map_sum id hit_area (snd (run plain_env one_record_hooks ''ctx'' False False fresh_analysis))
        = Inr (Some 5)"
proof -
  define s2 where "s2 = set_input_geometry plain_env fresh_analysis"
  define s3 where "s3 = s2\<lparr> geometries := [Some 5, None], result_status := HIT_RED \<rparr>"
  have cov: "run_coverage_analysis plain_env (set_input_geometry plain_env fresh_analysis) = Inr s2"
    by (simp add: s2_def fresh_coverage)
  have hc: "has_coverage s2"
    by (simp add: s2_def fresh_has_coverage)
  have q: "run_queries one_record_hooks s2 = Inr s3"
    by (simp add: one_record_hooks_def s3_def)
  have st: "result_status s3 \<noteq> TIMEOUT" "result_status s3 \<noteq> ERROR" "geometries s3 = [Some 5, None]"
    by (simp_all add: s3_def)
  have g: "run_on_input_geometry s3 = Some 7"
    by (simp add: s3_def s2_def fresh_input_geometry)
  have frame: "\<And>a b. set_distance_to_object one_record_hooks a = Inr b
                  \<Longrightarrow> hit_area b = hit_area a \<and> input_geometry_area b = input_geometry_area a"
    by (auto simp: one_record_hooks_def)
  have no_error: "snd (run plain_env one_record_hooks ''ctx'' False False fresh_analysis) \<noteq> Inl e" for e
    by (simp add: run_covered [OF cov hc q st(1,2) set_geometry_areas_result [OF g]]
        distance_stage_hit s3_def deliver_result_plain)
  have area: "round_ndigits plain_env (GetArea plain_env 7) 2 = 7"
    using exact_round_ndigits_int [of 7] by (simp add: plain_env_def)
  have hit: "round_ndigits plain_env
       (float_sum plain_env (polygon_intersection_areas plain_env 7 [Some 5, None])) 2 = 5"
    using exact_round_ndigits_int [of 5]
    by (simp add: float_sum_def polygon_intersection_areas_def plain_env_def wkbPolygon_def)
  from C7_geometry_areas [OF cov hc q st(1,2) g frame, of "''ctx''" False False] no_error area hit st(3)
  show ?thesis
    by (cases "snd (run plain_env one_record_hooks ''ctx'' False False fresh_analysis)") auto
qed

text \<open>
  C7 as stated fails when the query finds nothing: the status stays NO\_HIT\_GREEN, the
  list of result geometries is empty, and hitArea stays unset instead of the rounded empty
  sum.
\<close>

theorem C7_counterexample:
  "map_sum id result_status (snd (run plain_env no_record_hooks ''ctx'' False False fresh_analysis))
      = Inr NO_HIT_GREEN
   \<and> map_sum id geometries (snd (run plain_env no_record_hooks ''ctx'' False False fresh_analysis))
      = Inr []
   \<and> map_sum id hit_area (snd (run plain_env no_record_hooks ''ctx'' False False fresh_analysis))
      = Inr None
   \<and> map_sum id hit_area (snd (run plain_env no_record_hooks ''ctx'' False False fresh_analysis))
      \<noteq> Inr (Some (round_ndigits plain_env
                (float_sum plain_env (polygon_intersection_areas plain_env 7 [])) 2))"
proof -
  define s2 where "s2 = set_input_geometry plain_env fresh_analysis"
  have cov: "run_coverage_analysis plain_env (set_input_geometry plain_env fresh_analysis) = Inr s2"
    by (simp add: s2_def fresh_coverage)
  have hc: "has_coverage s2"
    by (simp add: s2_def fresh_has_coverage)
  have q: "run_queries no_record_hooks s2 = Inr s2"
    by (simp add: no_record_hooks_def)
  have st: "result_status s2 = NO_HIT_GREEN" "geometries s2 = []" "hit_area s2 = None"
    by (simp_all add: s2_def set_input_geometry_frame fresh_analysis_def Analysis_init_def)
  have g: "run_on_input_geometry s2 = Some 7"
    by (simp add: s2_def fresh_input_geometry)
  define s4 where "s4 = s2\<lparr> input_geometry_area := Some (round_ndigits plain_env (GetArea plain_env 7) 2),
      hit_area := None \<rparr>"
  have areas: "set_geometry_areas plain_env s2 = Inr s4"
    using set_geometry_areas_result [OF g, of plain_env] by (simp add: st s4_def)
  have st4: "result_status s4 = NO_HIT_GREEN" "geometries s4 = []" "hit_area s4 = None"
    by (simp_all add: s4_def st)
  have d: "set_distance_to_object no_record_hooks s4 = Inr (s4\<lparr> distance_to_object := maxsize \<rparr>)"
    by (simp add: no_record_hooks_def)
  have r: "run plain_env no_record_hooks ''ctx'' False False fresh_analysis
      = deliver_result plain_env ''ctx'' False False
          ([Call_set_input_geometry, Call_run_coverage_analysis, Call_run_queries, Call_set_geometry_areas]
             @ [Call_set_distance_to_object])
          (s4\<lparr> distance_to_object := maxsize \<rparr>)"
    using st
    by (simp add: run_covered [OF cov hc q _ _ areas] distance_stage_no_hit [OF _ d] st4)
  show ?thesis
    by (simp add: r deliver_result_plain set_default_data_def add_run_algorithm_def st4)
qed

text \<open>
  C8. The serialized quality-measurement list follows the fixed priority list of dimension
  ids, which is \<^verbatim>\<open>fullstendighet_dekning\<close>, the positional accuracy dimension
  (\<^verbatim>\<open>stedfestingsn\<close>, o-slash, \<^verbatim>\<open>yaktighet\<close>), \<^verbatim>\<open>egnethet_reguleringsplan\<close>,
  \<^verbatim>\<open>egnethet_kommuneplan\<close>, \<^verbatim>\<open>egnethet_byggesak\<close>, at priorities 0 to 4: the list is
  the measurements of the first id, then those of the second, and so on; it is sorted by
  priority; a measurement whose dimension id is not in the priority list is left out; the
  measurements of one dimension id keep their input order, none lost and none repeated.
\<close>

theorem C8_sorted_by_priority:
  "sort_quality_measurements self
     = filter (\<lambda>qm. quality_dimension_id qm = ''fullstendighet_dekning'') (quality_measurement self)
       @ filter (\<lambda>qm. quality_dimension_id qm = ''stedfestingsn'' @ [char_of (248::nat)] @ ''yaktighet'')
           (quality_measurement self)
       @ filter (\<lambda>qm. quality_dimension_id qm = ''egnethet_reguleringsplan'') (quality_measurement self)
       @ filter (\<lambda>qm. quality_dimension_id qm = ''egnethet_kommuneplan'') (quality_measurement self)
       @ filter (\<lambda>qm. quality_dimension_id qm = ''egnethet_byggesak'') (quality_measurement self)
   \<and> dimension_priority ''fullstendighet_dekning'' = 0
   \<and> dimension_priority (''stedfestingsn'' @ [char_of (248::nat)] @ ''yaktighet'') = 1
   \<and> dimension_priority ''egnethet_reguleringsplan'' = 2
   \<and> dimension_priority ''egnethet_kommuneplan'' = 3
   \<and> dimension_priority ''egnethet_byggesak'' = 4
   \<and> sorted (map (\<lambda>qm. dimension_priority (quality_dimension_id qm)) (sort_quality_measurements self))
   \<and> (\<forall>i. filter (\<lambda>qm. quality_dimension_id qm = i) (sort_quality_measurements self)
          = (if i \<in> set [''fullstendighet_dekning'',
                           ''stedfestingsn'' @ [char_of (248::nat)] @ ''yaktighet'',
                           ''egnethet_reguleringsplan'', ''egnethet_kommuneplan'', ''egnethet_byggesak'']
             then filter (\<lambda>qm. quality_dimension_id qm = i) (quality_measurement self) else []))
   \<and> to_dict_qualityMeasurement item_to_dict self = map item_to_dict (sort_quality_measurements self)"
proof -
  have order: "QMS_SORT_ORDER = [''fullstendighet_dekning'',
                           ''stedfestingsn'' @ [char_of (248::nat)] @ ''yaktighet'',
                           ''egnethet_reguleringsplan'', ''egnethet_kommuneplan'', ''egnethet_byggesak'']"
    by (simp add: QMS_SORT_ORDER_def)
  have blocks: "sort_quality_measurements self
     = filter (\<lambda>qm. quality_dimension_id qm = ''fullstendighet_dekning'') (quality_measurement self)
       @ filter (\<lambda>qm. quality_dimension_id qm = ''stedfestingsn'' @ [char_of (248::nat)] @ ''yaktighet'')
           (quality_measurement self)
       @ filter (\<lambda>qm. quality_dimension_id qm = ''egnethet_reguleringsplan'') (quality_measurement self)
       @ filter (\<lambda>qm. quality_dimension_id qm = ''egnethet_kommuneplan'') (quality_measurement self)
       @ filter (\<lambda>qm. quality_dimension_id qm = ''egnethet_byggesak'') (quality_measurement self)"
    unfolding sort_quality_measurements_blocks order by simp
  have prio: "dimension_priority ''fullstendighet_dekning'' = 0"
    "dimension_priority (''stedfestingsn'' @ [char_of (248::nat)] @ ''yaktighet'') = 1"
    "dimension_priority ''egnethet_reguleringsplan'' = 2"
    "dimension_priority ''egnethet_kommuneplan'' = 3"
    "dimension_priority ''egnethet_byggesak'' = 4"
    by (simp_all add: QMS_SORT_ORDER_def dimension_priority_def)
  have "sorted (map dimension_priority QMS_SORT_ORDER)"
    by (simp add: QMS_SORT_ORDER_priorities)
  then have s: "sorted (map (\<lambda>qm. dimension_priority (quality_dimension_id qm)) (sort_quality_measurements self))"
    unfolding sort_quality_measurements_blocks by (rule blocks_sorted)
  have f: "\<forall>i. filter (\<lambda>qm. quality_dimension_id qm = i) (sort_quality_measurements self)
          = (if i \<in> set QMS_SORT_ORDER
             then filter (\<lambda>qm. quality_dimension_id qm = i) (quality_measurement self) else [])"
    unfolding sort_quality_measurements_blocks using blocks_filter [OF QMS_SORT_ORDER_distinct] by blast
  have d: "to_dict_qualityMeasurement item_to_dict self = map item_to_dict (sort_quality_measurements self)"
    by (simp add: to_dict_qualityMeasurement_def)
  from blocks prio s f [unfolded order] d show ?thesis
    by (intro conjI)
qed

text \<open>
  C9. The body of \<^verbatim>\<open>_set_distance_to_object\<close> on a fresh analysis of geometry 7: when
  the search query returns one feature at rounded distance 3, or an empty feature list, the
  body raises \<^verbatim>\<open>AttributeError\<close> at \<^verbatim>\<open>self._add_run_algorithm('get distance')\<close> and
  assigns no distance; only when the query yields no response does it set the distance, to
  \<^verbatim>\<open>sys.maxsize\<close>.
\<close>

theorem C9_distance_not_assigned:
  "feature_distances one_feature_env (Some 7) [point_feature] = Inr [3]
   \<and> OgcApiAnalysis__set_distance_to_object one_feature_env
         (set_input_geometry one_feature_env fresh_analysis)
       = Inl (AttributeError ''_add_run_algorithm'')
   \<and> OgcApiAnalysis__set_distance_to_object no_feature_env
         (set_input_geometry no_feature_env fresh_analysis)
       = Inl (AttributeError ''_add_run_algorithm'')
   \<and> OgcApiAnalysis__set_distance_to_object plain_env
         (set_input_geometry plain_env fresh_analysis)
       = Inr ((set_input_geometry plain_env fresh_analysis)\<lparr> distance_to_object := maxsize \<rparr>)"
proof -
  have ls: "layers (config (set_input_geometry env fresh_analysis)) = one_layer # []" for env :: "nat env"
    by (simp add: set_input_geometry_frame fresh_analysis_def Analysis_init_def one_layer_config_def)
  have w: "run_on_input_geometry (set_input_geometry one_feature_env fresh_analysis) = Some 7"
    by (simp add: set_input_geometry_working fresh_analysis_def Analysis_init_def one_feature_env_def
        plain_env_def)
  have d: "feature_distances one_feature_env (Some 7) [point_feature] = Inr [3]"
    by (simp add: get_geometry_from_response_def one_feature_env_def plain_env_def py_round_def Let_def)
  have q1: "query_ogc_api one_feature_env a l f g e = (200, Some [point_feature])" for a l f g e
    by (simp add: one_feature_env_def plain_env_def)
  have q2: "query_ogc_api no_feature_env a l f g e = (200, Some [])" for a l f g e
    by (simp add: no_feature_env_def plain_env_def)
  have q3: "query_ogc_api plain_env a l f g e = (200, None)" for a l f g e
    by (simp add: plain_env_def)
  have r1: "OgcApiAnalysis__set_distance_to_object one_feature_env
         (set_input_geometry one_feature_env fresh_analysis)
       = Inl (AttributeError ''_add_run_algorithm'')"
    using set_distance_response [OF ls q1, of one_feature_env] by (simp only: w d sum.case)
  have r2: "OgcApiAnalysis__set_distance_to_object no_feature_env
         (set_input_geometry no_feature_env fresh_analysis)
       = Inl (AttributeError ''_add_run_algorithm'')"
    using set_distance_response [OF ls q2, of no_feature_env] by simp
  have r3: "OgcApiAnalysis__set_distance_to_object plain_env
         (set_input_geometry plain_env fresh_analysis)
       = Inr ((set_input_geometry plain_env fresh_analysis)\<lparr> distance_to_object := maxsize \<rparr>)"
    using ls q3 by (rule set_distance_no_response)
  from d r1 r2 r3 show ?thesis by (intro conjI)
qed

text \<open>
  C10. On \<^verbatim>\<open>OgcApiAnalysis\<close> the names that \<^verbatim>\<open>run\<close> calls do not resolve to an
  implementation: \<^verbatim>\<open>run_queries\<close> and \<^verbatim>\<open>set_distance_to_object\<close> still end at the
  abstract declarations of \<^verbatim>\<open>Analysis\<close> (the class binds \<^verbatim>\<open>_run_queries\<close> and
  \<^verbatim>\<open>_set_distance_to_object\<close> instead), so creating an object raises \<^verbatim>\<open>TypeError\<close>;
  and no class binds \<^verbatim>\<open>_add_run_algorithm\<close>, so the step-label call inside the query and
  distance bodies raises \<^verbatim>\<open>AttributeError\<close>.
\<close>

theorem C10_methods_do_not_resolve:
  "OgcApiAnalysis_new d c (g :: 'g) e oe b = Inl (TypeError ''run_queries set_distance_to_object '')
   \<and> is_abstract (class_lookup (OgcApiAnalysis_mro :: (string \<times> 'g attribute) list list) ''run_queries'')
   \<and> is_abstract (class_lookup (OgcApiAnalysis_mro :: (string \<times> 'g attribute) list list) ''set_distance_to_object'')
   \<and> class_lookup (OgcApiAnalysis_mro :: (string \<times> 'g attribute) list list) ''_add_run_algorithm'' = None
   \<and> call_step_method OgcApiAnalysis_mro ''_add_run_algorithm'' ''get distance'' (self :: 'g Analysis)
        = Inl (AttributeError ''_add_run_algorithm'')"
  apply (intro conjI)
      apply (simp add: OgcApiAnalysis_new_def OgcApiAnalysis_abstract_methods)
     apply (simp add: OgcApiAnalysis_mro_def OgcApiAnalysis_namespace_def Analysis_namespace_def is_abstract_def)
    apply (simp add: OgcApiAnalysis_mro_def OgcApiAnalysis_namespace_def Analysis_namespace_def is_abstract_def)
   apply (rule add_run_algorithm_unresolved)
  apply (rule call_add_run_algorithm_fails)
  done

end
